theory Spec2Isabelle
  imports Main "HOL-Library.Sublist"
begin

section \<open>Construction tagging engine of the Caesar pipeline\<close>

text \<open>
  A shallow embedding of \<^verbatim>\<open>server/scripts/caesar_pipeline/tag_constructions.py\<close>.
  Tokens are the JSON objects written by \<^verbatim>\<open>run_ud.py\<close>; every field is read with
  \<^verbatim>\<open>dict.get\<close>, so a missing field is \<open>None\<close>.  Token positions are natural
  numbers (the source only ever indexes with \<^verbatim>\<open>enumerate\<close>/\<^verbatim>\<open>range\<close> positions
  and with \<^verbatim>\<open>head - 1\<close> after checking \<^verbatim>\<open>0 <= h < len(tokens)\<close>).
\<close>

subsection \<open>Feature bags\<close>

text \<open>
  The value stored under \<^verbatim>\<open>"feats"\<close>:
  \<^item> \<open>FNone\<close>: the key is absent or the value is \<^verbatim>\<open>None\<close> (or another falsy value
    that is neither a string nor a dict);
  \<^item> \<open>FStr s\<close>: a UD feature string such as \<^verbatim>\<open>Case=Abl|Gender=Fem|Number=Sing\<close>;
  \<^item> \<open>FDict m\<close>: a dictionary from feature names to feature values (strings);
  \<^item> \<open>FOther\<close>: a truthy value that is neither a string nor a dictionary (a number).
\<close>

datatype feats_bag = FNone | FStr string | FDict "string \<rightharpoonup> string" | FOther

text \<open>\<^verbatim>\<open>s.split(c)\<close> for a one-character separator: never returns the empty list.\<close>

fun split_on :: "char \<Rightarrow> string \<Rightarrow> string list" where
  "split_on c [] = [[]]"
| "split_on c (x # xs) =
     (if x = c then [] # split_on c xs
      else (case split_on c xs of
              [] \<Rightarrow> [[x]]
            | p # ps \<Rightarrow> (x # p) # ps))"

text \<open>
  The loop of \<^verbatim>\<open>feats_get\<close> over the parts of a feature string:
  \<^verbatim>\<open>
    for part in feats.split("|"):
        if "=" not in part: continue
        k, v = part.split("=", 1)
        if k == key: return v
    return None
  \<close>
\<close>

fun feats_get_parts :: "string list \<Rightarrow> string \<Rightarrow> string option" where
  "feats_get_parts [] key = None"
| "feats_get_parts (part # rest) key =
     (if CHR ''='' \<notin> set part then feats_get_parts rest key
      else (let k = takeWhile (\<lambda>c. c \<noteq> CHR ''='') part;
                v = tl (dropWhile (\<lambda>c. c \<noteq> CHR ''='') part)
            in if k = key then Some v else feats_get_parts rest key))"

text \<open>
  \<^verbatim>\<open>
  def feats_get(feats, key):
      if not feats: return None
      if isinstance(feats, dict): return feats.get(key)
      if not isinstance(feats, str): return None
      ...
  \<close>
  The empty string and the empty dictionary are falsy; both branches below give
  \<open>None\<close> on them, as the early return does.
\<close>

fun feats_get :: "feats_bag \<Rightarrow> string \<Rightarrow> string option" where
  "feats_get FNone key = None"
| "feats_get (FDict m) key = m key"
| "feats_get FOther key = None"
| "feats_get (FStr s) key = (if s = [] then None else feats_get_parts (split_on CHR ''|'' s) key)"

definition feats_has :: "feats_bag \<Rightarrow> string \<Rightarrow> string \<Rightarrow> bool" where
  "feats_has feats key v = (feats_get feats key = Some v)"

text \<open>\<^verbatim>\<open>get_feat\<close> is a second copy of \<^verbatim>\<open>feats_get\<close> in the source.\<close>

definition get_feat :: "feats_bag \<Rightarrow> string \<Rightarrow> string option" where
  "get_feat feats key = feats_get feats key"

text \<open>Python truthiness of an optional string: \<open>None\<close> and \<open>""\<close> are falsy.\<close>

fun truthy :: "string option \<Rightarrow> bool" where
  "truthy None = False"
| "truthy (Some s) = (s \<noteq> [])"

subsection \<open>Strings\<close>

text \<open>
  \<^verbatim>\<open>str.lower()\<close> and \<^verbatim>\<open>str.strip()\<close> on the ASCII range; every literal the tagger
  compares with is ASCII.
\<close>

definition lower_char :: "char \<Rightarrow> char" where
  "lower_char c =
     (case map_of (zip ''ABCDEFGHIJKLMNOPQRSTUVWXYZ'' ''abcdefghijklmnopqrstuvwxyz'') c of
        None \<Rightarrow> c
      | Some d \<Rightarrow> d)"

definition lower :: "string \<Rightarrow> string" where
  "lower s = map lower_char s"

definition is_space :: "char \<Rightarrow> bool" where
  "is_space c = (c \<in> set [CHR '' '', CHR 0x09, CHR 0x0A, CHR 0x0B, CHR 0x0C, CHR 0x0D,
                            CHR 0x1C, CHR 0x1D, CHR 0x1E, CHR 0x1F])"

definition strip :: "string \<Rightarrow> string" where
  "strip s = rev (dropWhile is_space (rev (dropWhile is_space s)))"

text \<open>\<^verbatim>\<open>x or ""\<close> for an optional string.\<close>

fun or_empty :: "string option \<Rightarrow> string" where
  "or_empty None = []"
| "or_empty (Some s) = s"

subsection \<open>Tokens\<close>

text \<open>
  \<open>t_head\<close> is the value of \<^verbatim>\<open>tok.get("head", 0)\<close>: \<open>None\<close> when it is not an
  integer, \<open>Some 0\<close> when the key is absent.
\<close>

record token =
  t_text :: "string option"
  t_lemma :: "string option"
  t_upos :: "string option"
  t_feats :: feats_bag
  t_head :: "int option"
  t_deprel :: "string option"

text \<open>\<^verbatim>\<open>tok.get("feats") or ""\<close>\<close>

fun feats_or_empty :: "feats_bag \<Rightarrow> feats_bag" where
  "feats_or_empty FNone = FStr []"
| "feats_or_empty f = f"

definition tok_text :: "token \<Rightarrow> string" where
  "tok_text tok = strip (or_empty (t_text tok))"

definition tok_lemma :: "token \<Rightarrow> string" where
  "tok_lemma tok = strip (or_empty (t_lemma tok))"

definition is_punct :: "token \<Rightarrow> bool" where
  "is_punct tok = (t_upos tok = Some ''PUNCT'' \<or> t_deprel tok = Some ''punct'')"

subsection \<open>Boundary model\<close>

definition STRONG_PUNCT :: "string list" where
  "STRONG_PUNCT = [''.'', '';'', '':'', ''?'', ''!'']"

definition is_strong_boundary :: "token \<Rightarrow> bool" where
  "is_strong_boundary tok =
     (if t_upos tok = Some ''PUNCT'' then tok_text tok \<in> set STRONG_PUNCT else False)"

text \<open>\<^verbatim>\<open>for k in range(lo + 1, hi)\<close>; both positions are token positions at every call.\<close>

definition has_strong_boundary_between :: "token list \<Rightarrow> nat \<Rightarrow> nat \<Rightarrow> bool" where
  "has_strong_boundary_between tokens a b =
     (let lo = (if a \<le> b then a else b); hi = (if a \<le> b then b else a)
      in list_ex (\<lambda>k. is_strong_boundary (tokens ! k)) [lo + 1 ..< hi])"

text \<open>
  The two loops of \<^verbatim>\<open>segment_bounds\<close>:
  \<^verbatim>\<open>
    while left > 0:
        if is_strong_boundary(tokens[left - 1]): break
        left -= 1
    while right < n - 1:
        if is_strong_boundary(tokens[right + 1]): break
        right += 1
  \<close>
  (\<^verbatim>\<open>right < n - 1\<close> is written \<open>right + 1 < n\<close>, which is the same on integers.)
\<close>

fun scan_left :: "(token \<Rightarrow> bool) \<Rightarrow> token list \<Rightarrow> nat \<Rightarrow> nat" where
  "scan_left stop tokens 0 = 0"
| "scan_left stop tokens (Suc l) =
     (if stop (tokens ! l) then Suc l else scan_left stop tokens l)"

function scan_right :: "(token \<Rightarrow> bool) \<Rightarrow> token list \<Rightarrow> nat \<Rightarrow> nat" where
  "scan_right stop tokens right =
     (if right + 1 < length tokens
      then (if stop (tokens ! (right + 1)) then right
            else scan_right stop tokens (right + 1))
      else right)"
  by pat_completeness auto
termination
  by (relation "measure (\<lambda>(stop, tokens, right). length tokens - right)") auto

definition segment_bounds :: "token list \<Rightarrow> nat \<Rightarrow> nat \<times> nat" where
  "segment_bounds tokens i =
     (scan_left is_strong_boundary tokens i, scan_right is_strong_boundary tokens i)"

definition SENTENCE_END_PUNCT :: "string list" where
  "SENTENCE_END_PUNCT = [''.'', ''?'', ''!'']"

definition is_sentence_end_boundary :: "token \<Rightarrow> bool" where
  "is_sentence_end_boundary tok =
     (if t_upos tok = Some ''PUNCT'' then tok_text tok \<in> set SENTENCE_END_PUNCT else False)"

definition sentence_bounds :: "token list \<Rightarrow> nat \<Rightarrow> nat \<times> nat" where
  "sentence_bounds tokens i =
     (scan_left is_sentence_end_boundary tokens i,
      scan_right is_sentence_end_boundary tokens i)"

subsection \<open>Token predicates\<close>

definition is_nounish :: "token \<Rightarrow> bool" where
  "is_nounish tok = (t_upos tok \<in> {Some ''NOUN'', Some ''PROPN'', Some ''PRON''})"

definition is_verb_upos :: "token \<Rightarrow> bool" where
  "is_verb_upos tok = (t_upos tok \<in> {Some ''VERB'', Some ''AUX''})"

text \<open>
  \<^verbatim>\<open>
  def is_finite_verb(tok):
      feats = tok.get("feats") or ""
      if tok.get("upos") not in ("VERB", "AUX"): return False
      vf = feats_get(feats, "VerbForm")
      return vf in (None, "Fin")  # many trees omit VerbForm=Fin
  \<close>
\<close>

definition is_finite_verb :: "token \<Rightarrow> bool" where
  "is_finite_verb tok =
     (let feats = feats_or_empty (t_feats tok)
      in if \<not> is_verb_upos tok then False
         else (let vf = feats_get feats ''VerbForm''
               in vf \<in> {None, Some ''Fin''}))"

definition is_infinitive :: "token \<Rightarrow> bool" where
  "is_infinitive tok = feats_has (feats_or_empty (t_feats tok)) ''VerbForm'' ''Inf''"

definition agree_gender_number :: "token \<Rightarrow> token \<Rightarrow> bool" where
  "agree_gender_number a b =
     (let fa = feats_or_empty (t_feats a); fb = feats_or_empty (t_feats b);
          ga = feats_get fa ''Gender''; gb = feats_get fb ''Gender'';
          na = feats_get fa ''Number''; nb = feats_get fb ''Number''
      in if truthy ga \<and> truthy gb \<and> ga \<noteq> gb then False
         else if truthy na \<and> truthy nb \<and> na \<noteq> nb then False
         else True)"

text \<open>
  \<^verbatim>\<open>find_next_boundary(tokens, start_i)\<close>, called with a token position:
  \<^verbatim>\<open>
    i = start_i
    while i < len(tokens):
        t = tokens[i]
        if is_punct(t): return max(start_i, i - 1)
        if t.get("deprel") in ("parataxis", "root") and i != start_i: return i - 1
        i += 1
    return len(tokens) - 1
  \<close>
  \<open>i - 1\<close> is taken at \<open>i = 0\<close> only under \<open>max(start_i, _)\<close> with \<open>start_i = 0\<close>,
  where truncated subtraction gives the same maximum.
\<close>

function find_next_boundary_loop :: "token list \<Rightarrow> nat \<Rightarrow> nat \<Rightarrow> nat" where
  "find_next_boundary_loop tokens start_i i =
     (if i < length tokens
      then (let t = tokens ! i
            in if is_punct t then max start_i (i - 1)
               else if t_deprel t \<in> {Some ''parataxis'', Some ''root''} \<and> i \<noteq> start_i
                    then i - 1
               else find_next_boundary_loop tokens start_i (i + 1))
      else length tokens - 1)"
  by pat_completeness auto
termination
  by (relation "measure (\<lambda>(tokens, start_i, i). length tokens - i)") auto

definition find_next_boundary :: "token list \<Rightarrow> nat \<Rightarrow> nat" where
  "find_next_boundary tokens start_i = find_next_boundary_loop tokens start_i start_i"

subsection \<open>Tree index\<close>

text \<open>
  \<^verbatim>\<open>children = {i: [] for i in range(len(tokens))}\<close> is a list of child lists, one per
  position; \<^verbatim>\<open>children.get(cur, [])\<close> is \<open>children_get\<close>.
  \<^verbatim>\<open>
    for i, tok in enumerate(tokens):
        head = tok.get("head", 0)
        if not isinstance(head, int) or head <= 0: continue
        h = head - 1
        if 0 <= h < len(tokens): children[h].append(i)
  \<close>
\<close>

type_synonym children = "nat list list"

definition children_get :: "children \<Rightarrow> nat \<Rightarrow> nat list" where
  "children_get ch cur = (if cur < length ch then ch ! cur else [])"

definition build_children_step :: "token list \<Rightarrow> nat \<Rightarrow> children \<Rightarrow> children" where
  "build_children_step tokens i ch =
     (case t_head (tokens ! i) of
        None \<Rightarrow> ch
      | Some head \<Rightarrow>
          if head \<le> 0 then ch
          else (let h = nat (head - 1)
                in if h < length tokens then ch[h := ch ! h @ [i]] else ch))"

definition build_children :: "token list \<Rightarrow> children" where
  "build_children tokens =
     fold (build_children_step tokens) [0 ..< length tokens] (replicate (length tokens) [])"

text \<open>
  \<^verbatim>\<open>
  def in_subtree(tokens, children, root_i, query_i):
      stack = [root_i]
      seen = set()
      while stack:
          cur = stack.pop()
          if cur == query_i: return True
          if cur in seen: continue
          seen.add(cur)
          for c in children.get(cur, []): stack.append(c)
      return False
  \<close>
  The stack is a list whose head is the top: appending the children in order leaves the
  last child on top.  The loop is a partial function into \<open>option\<close>, \<open>None\<close> standing for
  a run that never returns.
\<close>

partial_function (option) in_subtree_loop ::
  "children \<Rightarrow> nat \<Rightarrow> nat list \<Rightarrow> nat set \<Rightarrow> bool option" where
  "in_subtree_loop ch query_i stack seen =
     (case stack of
        [] \<Rightarrow> Some False
      | cur # rest \<Rightarrow>
          if cur = query_i then Some True
          else if cur \<in> seen then in_subtree_loop ch query_i rest seen
          else in_subtree_loop ch query_i (rev (children_get ch cur) @ rest) (insert cur seen))"

declare in_subtree_loop.simps [code]

definition in_subtree :: "token list \<Rightarrow> children \<Rightarrow> nat \<Rightarrow> nat \<Rightarrow> bool option" where
  "in_subtree tokens ch root_i query_i = in_subtree_loop ch query_i [root_i] {}"

subsection \<open>Predicate signatures\<close>

definition get_tense :: "token \<Rightarrow> string option" where
  "get_tense tok = feats_get (feats_or_empty (t_feats tok)) ''Tense''"

definition get_aspect :: "token \<Rightarrow> string option" where
  "get_aspect tok = feats_get (feats_or_empty (t_feats tok)) ''Aspect''"

definition get_mood :: "token \<Rightarrow> string option" where
  "get_mood tok = feats_get (feats_or_empty (t_feats tok)) ''Mood''"

definition get_verbform :: "token \<Rightarrow> string option" where
  "get_verbform tok = feats_get (feats_or_empty (t_feats tok)) ''VerbForm''"

definition is_subjunctive :: "token \<Rightarrow> bool" where
  "is_subjunctive tok = feats_has (t_feats tok) ''Mood'' ''Sub''"

definition looks_like_future_participle_form :: "string \<Rightarrow> bool" where
  "looks_like_future_participle_form form =
     (let f = lower form
      in list_ex (\<lambda>e. suffix e f) [''urus'', ''ura'', ''urum'', ''uros'', ''uras''])"

record compound_info =
  kind :: string
  aux_index :: nat
  part_index :: nat

record pred_sig =
  mood :: "string option"
  tense :: "string option"
  aspect :: "string option"
  verbForm :: "string option"
  compound :: "compound_info option"

definition empty_sig :: pred_sig where
  "empty_sig = \<lparr>mood = None, tense = None, aspect = None, verbForm = None, compound = None\<rparr>"

text \<open>
  \<^verbatim>\<open>predicate_signature(tokens, children, vi)\<close>.  The participle is the first child of
  \<open>vi\<close> whose \<^verbatim>\<open>VerbForm\<close> is \<^verbatim>\<open>Part\<close> (the loop breaks there).
\<close>

definition first_participle_child :: "token list \<Rightarrow> children \<Rightarrow> nat \<Rightarrow> nat option" where
  "first_participle_child tokens ch vi =
     find (\<lambda>ci. feats_get (feats_or_empty (t_feats (tokens ! ci))) ''VerbForm'' = Some ''Part'')
          (children_get ch vi)"

definition predicate_signature :: "token list \<Rightarrow> children \<Rightarrow> nat option \<Rightarrow> pred_sig" where
  "predicate_signature tokens ch vi_opt =
     (case vi_opt of
        None \<Rightarrow> empty_sig
      | Some vi \<Rightarrow>
          if \<not> vi < length tokens then empty_sig
          else (let tok = tokens ! vi;
                    m = get_mood tok;
                    t = get_tense tok;
                    a = get_aspect tok;
                    vf = get_verbform tok;
                    lem = lower (or_empty (t_lemma tok));
                    up = t_upos tok;
                    base = \<lparr>mood = m, tense = t, aspect = a, verbForm = vf, compound = None\<rparr>
                in if lem \<in> {''sum'', ''esse''} \<and> up \<in> {Some ''AUX'', Some ''VERB''}
                   then (case first_participle_child tokens ch vi of
                           None \<Rightarrow> base
                         | Some part_i \<Rightarrow>
                             (let part = tokens ! part_i;
                                  p_feats = feats_or_empty (t_feats part);
                                  p_voice = feats_get p_feats ''Voice'';
                                  p_aspect = feats_get p_feats ''Aspect'';
                                  p_form = lower (or_empty (t_text part))
                              in if p_voice = Some ''Act'' \<and>
                                    (p_aspect = Some ''Prosp'' \<or>
                                     looks_like_future_participle_form p_form)
                                 then \<lparr>mood = m, tense = Some ''Fut'', aspect = Some ''Prosp'',
                                       verbForm = vf,
                                       compound = Some \<lparr>kind = ''future_active_periphrastic'',
                                                         aux_index = vi, part_index = part_i\<rparr>\<rparr>
                                 else if p_voice = Some ''Pass'' \<and> p_aspect = Some ''Perf''
                                 then (let eff_tense =
                                             (if t = Some ''Pres'' then Some ''Past''
                                              else if t = Some ''Past'' then Some ''Pqp''
                                              else t)
                                       in \<lparr>mood = m, tense = eff_tense, aspect = Some ''Perf'',
                                            verbForm = vf,
                                            compound = Some \<lparr>kind = ''perfect_passive_periphrastic'',
                                                              aux_index = vi, part_index = part_i\<rparr>\<rparr>)
                                 else base))
                   else base))"

text \<open>
  \<^verbatim>\<open>infer_infinitive_time(tokens, children, inf_i)\<close>: the tense an infinitive stands for,
  read from its own features, its surface form and, for \<^verbatim>\<open>sum\<close>, the participles in its
  subtree.
\<close>

definition subtree_others :: "token list \<Rightarrow> children \<Rightarrow> nat \<Rightarrow> nat list" where
  "subtree_others tokens ch inf_i =
     filter (\<lambda>j. j \<noteq> inf_i \<and> in_subtree tokens ch inf_i j = Some True) [0 ..< length tokens]"

definition marks_future :: "token \<Rightarrow> bool" where
  "marks_future tj =
     (let featsj = feats_or_empty (t_feats tj); formj = lower (or_empty (t_text tj))
      in (feats_get featsj ''VerbForm'' = Some ''Part'' \<and>
          (looks_like_future_participle_form formj \<or> feats_get featsj ''Aspect'' = Some ''Prosp''))
         \<or> formj = ''fore'')"

definition marks_past :: "token \<Rightarrow> bool" where
  "marks_past tj =
     (let featsj = feats_or_empty (t_feats tj)
      in feats_get featsj ''VerbForm'' = Some ''Part'' \<and>
         feats_get featsj ''Voice'' = Some ''Pass'' \<and> feats_get featsj ''Aspect'' = Some ''Perf'')"

definition infer_infinitive_time :: "token list \<Rightarrow> children \<Rightarrow> nat option \<Rightarrow> string option" where
  "infer_infinitive_time tokens ch inf_opt =
     (case inf_opt of
        None \<Rightarrow> None
      | Some inf_i \<Rightarrow>
          (let tok = tokens ! inf_i;
               feats = feats_or_empty (t_feats tok);
               txt = lower (or_empty (t_text tok));
               lem = lower (or_empty (t_lemma tok));
               t = feats_get feats ''Tense'';
               a = feats_get feats ''Aspect''
           in if t \<in> {Some ''Past'', Some ''Pqp''} \<or> a = Some ''Perf'' then Some ''Past''
              else if t = Some ''Fut'' \<or> a = Some ''Prosp'' then Some ''Fut''
              else if txt = ''fore'' then Some ''Fut''
              else if lem = ''sum''
              then (let sub = subtree_others tokens ch inf_i;
                        saw_future = list_ex (\<lambda>j. marks_future (tokens ! j)) sub;
                        saw_past = list_ex (\<lambda>j. marks_past (tokens ! j)) sub
                    in if saw_future then Some ''Fut''
                       else if saw_past then Some ''Past''
                       else Some ''Pres'')
              else Some ''Pres''))"

subsection \<open>Conditional classification\<close>

text \<open>The dictionary built by \<^verbatim>\<open>mk\<close> inside \<^verbatim>\<open>infer_discourse\<close>.\<close>

record disc_info =
  statement :: string
  sequence :: "string option"
  head_verb_index :: "nat option"
  head_verb_tense :: "string option"
  discourse :: string
  reason :: string

text \<open>
  \<^verbatim>\<open>classify_conditional(tokens, children, pv_i, ap_i, discourse)\<close>, branch by branch.
  \<^verbatim>\<open>disc = (discourse or {}).get("discourse", "direct")\<close>.
\<close>

definition protasis_only_label :: "string option \<Rightarrow> string option \<Rightarrow> string option \<Rightarrow> string" where
  "protasis_only_label pm pt pa =
     (if pm = Some ''Sub'' \<and> pt = Some ''Pres'' then ''future_less_vivid''
      else if pm = Some ''Sub'' \<and> pt = Some ''Past'' \<and> pa = Some ''Imp'' then ''present_contrafactual''
      else if pm = Some ''Sub'' \<and> (pt = Some ''Pqp'' \<or> pa = Some ''Perf'') then ''past_contrafactual''
      else if pm = Some ''Ind'' \<and> pt = Some ''Fut'' then ''future_more_vivid''
      else if pm = Some ''Ind'' \<and> pt = Some ''Pres'' then ''present_simple''
      else if pm = Some ''Ind'' \<and> pt = Some ''Past'' then ''past_simple''
      else ''mixed'')"

definition infinitive_label ::
  "string \<Rightarrow> string option \<Rightarrow> string option \<Rightarrow> string option \<Rightarrow> string option \<Rightarrow> string" where
  "infinitive_label disc pm pt pa inf_time =
     (if prefix ''indirect'' disc
      then (if pm = Some ''Sub'' \<and> pt = Some ''Pres'' then ''future_less_vivid''
            else if pm = Some ''Sub'' \<and> pt = Some ''Past'' \<and> pa = Some ''Imp''
                 then ''present_contrafactual''
            else if pm = Some ''Sub'' \<and> (pt = Some ''Pqp'' \<or> pa = Some ''Perf'')
                 then ''past_contrafactual''
            else if pm = Some ''Ind'' \<and> pt = Some ''Fut'' \<and> inf_time = Some ''Fut''
                 then ''future_more_vivid''
            else if pm = Some ''Ind'' \<and> pt = Some ''Pres'' \<and> inf_time = Some ''Pres''
                 then ''present_simple''
            else if pm = Some ''Ind'' \<and> pt = Some ''Past'' \<and>
                    inf_time \<in> {Some ''Past'', Some ''Pres''}
                 then ''past_simple''
            else (if pm = Some ''Sub'' then ''future_less_vivid'' else ''mixed''))
      else if pm = Some ''Sub'' \<and> pt = Some ''Pres'' then ''future_less_vivid''
      else if pm = Some ''Sub'' \<and> pt = Some ''Past'' \<and> pa = Some ''Imp'' then ''present_contrafactual''
      else if pm = Some ''Sub'' \<and> (pt = Some ''Pqp'' \<or> pa = Some ''Perf'') then ''past_contrafactual''
      else ''mixed'')"

definition finite_label ::
  "string \<Rightarrow> string option \<Rightarrow> string option \<Rightarrow> string option \<Rightarrow>
   string option \<Rightarrow> string option \<Rightarrow> string option \<Rightarrow> string" where
  "finite_label disc pm pt pa am at aa =
     (let prot_is_imperfect_subj = (pm = Some ''Sub'' \<and> pt = Some ''Past'' \<and> pa = Some ''Imp'');
          apod_is_imperfect_subj = (am = Some ''Sub'' \<and> at = Some ''Past'' \<and> aa = Some ''Imp'');
          prot_is_pluperfect_like = (pm = Some ''Sub'' \<and> (pt = Some ''Pqp'' \<or> pa = Some ''Perf''));
          apod_is_pluperfect_like = (am = Some ''Sub'' \<and> (at = Some ''Pqp'' \<or> aa = Some ''Perf''))
      in if disc = ''direct''
         then (if pm = Some ''Ind'' \<and> am = Some ''Ind''
               then (if pt = Some ''Fut'' \<and> at = Some ''Fut'' then ''future_more_vivid''
                     else if pt = Some ''Pres'' \<and> at = Some ''Pres'' then ''present_simple''
                     else if pt = Some ''Past'' \<and> at = Some ''Past'' then ''past_simple''
                     else ''mixed_indicative'')
               else if pm = Some ''Sub'' \<and> am = Some ''Sub''
               then (if pt = Some ''Pres'' \<and> at = Some ''Pres'' then ''future_less_vivid''
                     else if prot_is_imperfect_subj \<and> apod_is_imperfect_subj
                          then ''present_contrafactual''
                     else if prot_is_pluperfect_like \<and> apod_is_pluperfect_like
                          then ''past_contrafactual''
                     else ''mixed_subjunctive'')
               else ''mixed'')
         else if pm = Some ''Sub''
         then (if pt = Some ''Pres'' \<and> at = Some ''Pres'' \<and> am = Some ''Sub''
               then ''future_less_vivid''
               else if prot_is_imperfect_subj then ''present_contrafactual''
               else if prot_is_pluperfect_like then ''past_contrafactual''
               else ''mixed_subjunctive'')
         else if pm = Some ''Ind''
         then (if pt = Some ''Fut'' \<and> at = Some ''Fut'' \<and> am = Some ''Ind''
               then ''future_more_vivid''
               else if pt = Some ''Pres'' \<and> at = Some ''Pres'' \<and> am = Some ''Ind''
               then ''present_simple''
               else if pt = Some ''Past'' \<and> at = Some ''Past'' \<and> am = Some ''Ind''
               then ''past_simple''
               else ''mixed'')
         else ''mixed'')"

definition valid_index :: "token list \<Rightarrow> nat option \<Rightarrow> bool" where
  "valid_index tokens i_opt = (case i_opt of None \<Rightarrow> False | Some i \<Rightarrow> i < length tokens)"

definition classify_conditional ::
  "token list \<Rightarrow> children \<Rightarrow> nat option \<Rightarrow> nat option \<Rightarrow> disc_info option \<Rightarrow> string" where
  "classify_conditional tokens ch pv_i ap_i disc_opt =
     (let disc = (case disc_opt of None \<Rightarrow> ''direct'' | Some d \<Rightarrow> discourse d)
      in if \<not> valid_index tokens pv_i then ''unknown''
         else (let pv_sig = predicate_signature tokens ch pv_i;
                   pm = mood pv_sig; pt = tense pv_sig; pa = aspect pv_sig
               in if \<not> valid_index tokens ap_i then protasis_only_label pm pt pa
                  else (let av = tokens ! the ap_i
                        in if is_infinitive av
                           then infinitive_label disc pm pt pa
                                  (infer_infinitive_time tokens ch ap_i)
                           else (let av_sig = predicate_signature tokens ch ap_i
                                 in finite_label disc pm pt pa
                                      (mood av_sig) (tense av_sig) (aspect av_sig)))))"

subsection \<open>Tags\<close>

text \<open>
  A tag is the dictionary a detector appends.  \<open>confidence\<close> is kept in hundredths
  (\<^verbatim>\<open>0.9\<close> is \<open>90\<close>); \<open>trigger\<close> lists the trigger dictionary's items in insertion
  order; absent keys are \<open>None\<close>.
\<close>

datatype trig_val = TInt nat | TStr string | TNone

record cond_meta =
  label :: string
  meta_discourse :: string
  meta_sequence :: "string option"
  meta_statement :: string
  meta_head_verb_index :: "nat option"
  meta_head_verb_tense :: "string option"
  prot_verb_index :: nat
  prot_sig :: pred_sig
  apod_verb_index :: "nat option"
  apod_sig :: "pred_sig option"
  apod_form :: "string option"
  apod_inf_time :: "string option"

record tag =
  tag_type :: string
  subtype :: "string option"
  tag_start :: nat
  tag_end :: nat
  highlight_spans :: "(nat \<times> nat) list option"
  full_span :: "(nat \<times> nat) option"
  confidence :: nat
  conditional :: "cond_meta option"
  trigger :: "(string \<times> trig_val) list"

subsection \<open>Cum clauses\<close>

text \<open>
  One iteration of the loop of \<^verbatim>\<open>tag_cum_clauses\<close>: the tags appended for position
  \<open>i\<close> (none where the source says \<^verbatim>\<open>continue\<close>).
\<close>

definition cum_clause_at :: "token list \<Rightarrow> nat \<Rightarrow> tag list" where
  "cum_clause_at tokens i =
     (let tok = tokens ! i
      in if lower (tok_lemma tok) \<noteq> ''cum'' then []
         else if t_upos tok \<notin> {Some ''SCONJ'', Some ''ADP''} then []
         else if t_deprel tok \<notin> {Some ''mark'', Some ''case''} then []
         else (case t_head tok of
                 None \<Rightarrow> []
               | Some head \<Rightarrow>
                   if head \<le> 0 then []
                   else (let v_i = nat (head - 1)
                         in if \<not> v_i < length tokens then []
                            else if has_strong_boundary_between tokens i v_i then []
                            else (let v = tokens ! v_i;
                                      feats = feats_or_empty (t_feats v)
                                  in if feats_has feats ''Mood'' ''Sub'' \<and> is_finite_verb v
                                     then (let e = find_next_boundary tokens v_i;
                                               e' = (if has_strong_boundary_between tokens i e
                                                     then min e (snd (segment_bounds tokens v_i))
                                                     else e)
                                           in [\<lparr>tag_type = ''cum_clause'', subtype = None,
                                                tag_start = i, tag_end = e',
                                                highlight_spans = None, full_span = None,
                                                confidence = 90, conditional = None,
                                                trigger = [(''cum_index'', TInt i),
                                                           (''verb_index'', TInt v_i)]\<rparr>])
                                     else []))))"

definition tag_cum_clauses :: "token list \<Rightarrow> tag list" where
  "tag_cum_clauses tokens = concat (map (cum_clause_at tokens) [0 ..< length tokens])"

subsection \<open>Ablative absolutes\<close>

text \<open>
  The inner loop of \<^verbatim>\<open>tag_ablative_absolutes\<close> takes the first child that passes every
  test (each failed test is a \<^verbatim>\<open>continue\<close>, the first success a \<^verbatim>\<open>break\<close>).
\<close>

definition abl_noun_ok :: "token list \<Rightarrow> string option \<Rightarrow> string option \<Rightarrow> nat \<Rightarrow> bool" where
  "abl_noun_ok tokens part_gender part_number ci =
     (let c = tokens ! ci;
          c_feats = feats_or_empty (t_feats c)
      in if \<not> (is_nounish c \<and> feats_has c_feats ''Case'' ''Abl'') then False
         else (let noun_gender = get_feat c_feats ''Gender'';
                   noun_number = get_feat c_feats ''Number''
               in if \<not> truthy part_gender \<or> \<not> truthy part_number \<or>
                     \<not> truthy noun_gender \<or> \<not> truthy noun_number then False
                  else if part_gender \<noteq> noun_gender then False
                  else if part_number \<noteq> noun_number then False
                  else True))"

definition abl_abs_at :: "token list \<Rightarrow> children \<Rightarrow> nat \<Rightarrow> tag list" where
  "abl_abs_at tokens ch i =
     (let tok = tokens ! i;
          feats = feats_or_empty (t_feats tok)
      in if t_upos tok \<noteq> Some ''VERB'' then []
         else if \<not> feats_has feats ''VerbForm'' ''Part'' then []
         else if \<not> feats_has feats ''Case'' ''Abl'' then []
         else (let part_gender = get_feat feats ''Gender'';
                   part_number = get_feat feats ''Number''
               in case find (abl_noun_ok tokens part_gender part_number) (children_get ch i) of
                    None \<Rightarrow> []
                  | Some found_n \<Rightarrow>
                      [\<lparr>tag_type = ''abl_abs'', subtype = None,
                        tag_start = min i found_n, tag_end = max i found_n,
                        highlight_spans = Some [(i, i), (found_n, found_n)], full_span = None,
                        confidence = 88, conditional = None,
                        trigger = [(''part_index'', TInt i),
                                   (''abl_noun_index'', TInt found_n)]\<rparr>]))"

definition tag_ablative_absolutes :: "token list \<Rightarrow> tag list" where
  "tag_ablative_absolutes tokens =
     (let ch = build_children tokens
      in concat (map (abl_abs_at tokens ch) [0 ..< length tokens]))"

subsection \<open>Gerunds and gerundives\<close>

text \<open>
  \<^verbatim>\<open>is_future_passive_participle\<close> tests \<^verbatim>\<open>"VerbForm=Part" in feats\<close>: a substring
  test on a string, a key test on a dictionary, and a \<^verbatim>\<open>TypeError\<close> on a number.
  \<^verbatim>\<open>tokens[gi]\<close> raises \<^verbatim>\<open>IndexError\<close> past the end of the list.
\<close>

datatype py_error = TypeError | IndexError

fun is_substring :: "string \<Rightarrow> string \<Rightarrow> bool" where
  "is_substring needle [] = (needle = [])"
| "is_substring needle (c # cs) = (prefix needle (c # cs) \<or> is_substring needle cs)"

fun feats_contains :: "string \<Rightarrow> feats_bag \<Rightarrow> py_error + bool" where
  "feats_contains needle FNone = Inr False"
| "feats_contains needle (FStr s) = Inr (is_substring needle s)"
| "feats_contains needle (FDict m) = Inr (m needle \<noteq> None)"
| "feats_contains needle FOther = Inl TypeError"

text \<open>\<^verbatim>\<open>a and b\<close> on results: \<open>b\<close> is evaluated only when \<open>a\<close> is true.\<close>

fun and_then :: "py_error + bool \<Rightarrow> py_error + bool \<Rightarrow> py_error + bool" where
  "and_then (Inl e) b = Inl e"
| "and_then (Inr False) b = Inr False"
| "and_then (Inr True) b = b"

definition is_future_passive_participle :: "token \<Rightarrow> py_error + bool" where
  "is_future_passive_participle tok =
     (let feats = feats_or_empty (t_feats tok)
      in if \<not> is_verb_upos tok then Inr False
         else and_then (feats_contains ''VerbForm=Part'' feats)
                (and_then (feats_contains ''Voice=Pass'' feats)
                          (feats_contains ''Aspect=Prosp'' feats)))"

definition is_neuter_singular :: "token \<Rightarrow> bool" where
  "is_neuter_singular tok =
     (let feats = feats_or_empty (t_feats tok)
      in feats_has feats ''Gender'' ''Neut'' \<and> feats_has feats ''Number'' ''Sing'')"

definition agrees_case_number_gender :: "token \<Rightarrow> token \<Rightarrow> bool" where
  "agrees_case_number_gender a b =
     (let fa = feats_or_empty (t_feats a); fb = feats_or_empty (t_feats b);
          ca = feats_get fa ''Case''; cb = feats_get fb ''Case''
      in if truthy ca \<and> truthy cb \<and> ca \<noteq> cb then False
         else agree_gender_number a b)"

definition head_agrees :: "token list \<Rightarrow> token \<Rightarrow> bool" where
  "head_agrees tokens g =
     (case t_head g of
        None \<Rightarrow> False
      | Some head_id \<Rightarrow>
          if head_id > 0
          then (let hi = nat (head_id - 1)
                in if hi < length tokens
                   then (let h = tokens ! hi
                         in is_nounish h \<and> agrees_case_number_gender g h)
                   else False)
          else False)"

definition is_gerund :: "token list \<Rightarrow> nat \<Rightarrow> py_error + bool" where
  "is_gerund tokens gi =
     (if \<not> gi < length tokens then Inl IndexError
      else (let g = tokens ! gi
            in case is_future_passive_participle g of
                 Inl e \<Rightarrow> Inl e
               | Inr False \<Rightarrow> Inr False
               | Inr True \<Rightarrow>
                   if \<not> is_neuter_singular g then Inr False
                   else if head_agrees tokens g then Inr False
                   else Inr True))"

definition is_gerundive :: "token list \<Rightarrow> nat \<Rightarrow> py_error + bool" where
  "is_gerundive tokens gi =
     (if \<not> gi < length tokens then Inl IndexError
      else (let g = tokens ! gi
            in case is_future_passive_participle g of
                 Inl e \<Rightarrow> Inl e
               | Inr False \<Rightarrow> Inr False
               | Inr True \<Rightarrow>
                   (case is_gerund tokens gi of
                      Inl e \<Rightarrow> Inl e
                    | Inr b \<Rightarrow> Inr (\<not> b))))"

subsection \<open>Deduplication\<close>

text \<open>
  The key of \<^verbatim>\<open>dedup_tags\<close>: type, subtype, the highlight spans (\<^verbatim>\<open>or []\<close>) and the
  trigger's items; \<^verbatim>\<open>sorted\<close> makes the order of the items irrelevant, so they are
  compared as a set.
\<close>

definition tag_key ::
  "tag \<Rightarrow> string \<times> string option \<times> (nat \<times> nat) list \<times> (string \<times> trig_val) set" where
  "tag_key t =
     (tag_type t, subtype t,
      (case highlight_spans t of None \<Rightarrow> [] | Some h \<Rightarrow> h),
      set (trigger t))"

fun dedup_loop ::
  "(string \<times> string option \<times> (nat \<times> nat) list \<times> (string \<times> trig_val) set) list \<Rightarrow>
   tag list \<Rightarrow> tag list" where
  "dedup_loop seen [] = []"
| "dedup_loop seen (t # ts) =
     (if tag_key t \<in> set seen then dedup_loop seen ts
      else t # dedup_loop (tag_key t # seen) ts)"

definition dedup_tags :: "tag list \<Rightarrow> tag list" where
  "dedup_tags tag_list = dedup_loop [] tag_list"

subsection \<open>Conditionals: helpers of the detector\<close>

text \<open>
  The functions nested in \<^verbatim>\<open>tag_conditionals\<close> read \<^verbatim>\<open>tokens\<close>, \<^verbatim>\<open>n\<close> and
  \<^verbatim>\<open>children\<close> from the enclosing call; here they take them as arguments.
\<close>

definition SPEECH_LEMMAS :: "string list" where
  "SPEECH_LEMMAS =
     [''dico'', ''inquam'', ''aio'', ''nego'', ''respondeo'', ''puto'', ''existimo'', ''arbitror'',
      ''audio'', ''video'', ''cognosco'', ''intellego'', ''scio'', ''comperio'', ''nuntio'']"

definition INDIRECT_HEAD_LEMMAS :: "string list" where
  "INDIRECT_HEAD_LEMMAS =
     SPEECH_LEMMAS @
     [''impero'', ''iubeo'', ''mando'', ''praecipio'', ''cogo'', ''hortor'', ''moneo'',
      ''oro'', ''rogo'', ''peto'', ''postulo'', ''flagito'', ''posco'', ''suadeo'', ''persuadeo'',
      ''prohibeo'', ''veto'',
      ''nuntio'', ''renuntio'', ''refero'', ''denuntio'',
      ''intellego'', ''animadverto'', ''cognosco'', ''comperio'', ''rescio'']"

definition is_indirect_head :: "token \<Rightarrow> bool" where
  "is_indirect_head t = (lower (tok_lemma t) \<in> set INDIRECT_HEAD_LEMMAS \<and> is_finite_verb t)"

definition is_relative_like_verb :: "token list \<Rightarrow> children \<Rightarrow> nat \<Rightarrow> bool" where
  "is_relative_like_verb tokens ch j =
     (let tj = tokens ! j; dep = or_empty (t_deprel tj)
      in if is_substring ''relcl'' dep then True
         else list_ex (\<lambda>c. let ct = tokens ! c
                            in t_upos ct \<in> {Some ''PRON'', Some ''DET''} \<and>
                               feats_has (feats_or_empty (t_feats ct)) ''PronType'' ''Rel'')
                      (children_get ch j))"

definition is_comma :: "token \<Rightarrow> bool" where
  "is_comma t = (t_upos t = Some ''PUNCT'' \<and> tok_text t = '','')"

text \<open>
  \<^verbatim>\<open>comma_clause_bounds(center_i, seg_start, seg_end, include_trailing_comma)\<close>:
  \<^verbatim>\<open>range(center_i - 1, seg_start - 1, -1)\<close> runs down from \<open>center_i - 1\<close> to
  \<open>seg_start\<close>, \<^verbatim>\<open>range(center_i + 1, seg_end + 1)\<close> up to \<open>seg_end\<close>; each loop stops
  at the first comma.
\<close>

definition comma_clause_bounds ::
  "token list \<Rightarrow> nat \<Rightarrow> nat \<Rightarrow> nat \<Rightarrow> bool \<Rightarrow> nat \<times> nat" where
  "comma_clause_bounds tokens center_i seg_start seg_end include_trailing_comma =
     (let left = (case find (\<lambda>k. is_comma (tokens ! k)) (rev [seg_start ..< center_i]) of
                    None \<Rightarrow> seg_start
                  | Some k \<Rightarrow> k + 1);
          right = (case find (\<lambda>k. is_comma (tokens ! k)) [center_i + 1 ..< seg_end + 1] of
                     None \<Rightarrow> seg_end
                   | Some k \<Rightarrow> if include_trailing_comma then k else k - 1);
          left' = max seg_start left;
          right' = min seg_end right
      in if left' > right' then (center_i, center_i) else (left', right'))"

text \<open>
  \<^verbatim>\<open>ancestors_local(idx, max_hops=30)\<close>: the first argument of the loop counts the
  iterations of \<^verbatim>\<open>for _ in range(max_hops)\<close> that are left.
\<close>

fun ancestors_loop :: "token list \<Rightarrow> nat \<Rightarrow> nat \<Rightarrow> nat list" where
  "ancestors_loop tokens 0 cur = []"
| "ancestors_loop tokens (Suc hops) cur =
     (case t_head (tokens ! cur) of
        None \<Rightarrow> []
      | Some head_id \<Rightarrow>
          if head_id \<le> 0 then []
          else (let cur' = nat (head_id - 1)
                in if \<not> cur' < length tokens then []
                   else cur' # ancestors_loop tokens hops cur'))"

definition ancestors_local :: "token list \<Rightarrow> nat \<Rightarrow> nat list" where
  "ancestors_local tokens idx = ancestors_loop tokens 30 idx"

text \<open>\<^verbatim>\<open>mk\<close> and \<^verbatim>\<open>infer_sequence_from_head\<close> of \<^verbatim>\<open>infer_discourse\<close>.\<close>

definition mk :: "token list \<Rightarrow> string \<Rightarrow> string option \<Rightarrow> nat option \<Rightarrow> string \<Rightarrow> disc_info" where
  "mk tokens stmt seq head_i rsn =
     \<lparr>statement = stmt,
      sequence = seq,
      head_verb_index = head_i,
      head_verb_tense = (case head_i of None \<Rightarrow> None | Some h \<Rightarrow> get_tense (tokens ! h)),
      discourse = (if stmt = ''direct'' then ''direct''
                   else if truthy seq then ''indirect_'' @ or_empty seq
                   else ''indirect''),
      reason = rsn\<rparr>"

definition infer_sequence_from_head :: "token list \<Rightarrow> nat \<Rightarrow> string option" where
  "infer_sequence_from_head tokens i =
     (let ht = get_tense (tokens ! i)
      in if ht \<in> {Some ''Pres'', Some ''Fut''} then Some ''primary''
         else if ht \<in> {Some ''Past'', Some ''Pqp''} then Some ''secondary''
         else None)"

text \<open>
  \<^verbatim>\<open>min(head_candidates, key=lambda j: abs(j - anchor))\<close>: the first candidate at the
  least distance.
\<close>

definition dist :: "nat \<Rightarrow> nat \<Rightarrow> nat" where
  "dist a b = (if a \<le> b then b - a else a - b)"

fun nearest_from :: "nat \<Rightarrow> nat \<Rightarrow> nat list \<Rightarrow> nat" where
  "nearest_from anchor best [] = best"
| "nearest_from anchor best (j # js) =
     nearest_from anchor (if dist j anchor < dist best anchor then j else best) js"

text \<open>
  \<^verbatim>\<open>infer_discourse(pv_i, ap_i, seg_start, seg_end)\<close>.  \<open>pv_i\<close> is a position at every
  call; \<open>ap_i\<close> may be \<^verbatim>\<open>None\<close>.
\<close>

definition infer_discourse ::
  "token list \<Rightarrow> nat \<Rightarrow> nat option \<Rightarrow> nat \<Rightarrow> nat \<Rightarrow> disc_info" where
  "infer_discourse tokens pv_i ap_i seg_start seg_end =
     (let ancs = ancestors_local tokens pv_i @
                 (case ap_i of None \<Rightarrow> [] | Some a \<Rightarrow> ancestors_local tokens a)
      in case find (\<lambda>anc. is_indirect_head (tokens ! anc)) ancs of
           Some anc \<Rightarrow>
             mk tokens ''indirect'' (infer_sequence_from_head tokens anc) (Some anc)
                ''headverb_ancestor''
         | None \<Rightarrow>
             (let anchor = pv_i;
                  sb = sentence_bounds tokens anchor;
                  head_candidates =
                    filter (\<lambda>j. is_indirect_head (tokens ! j)) [fst sb ..< snd sb + 1]
              in case head_candidates of
                   c # cs \<Rightarrow>
                     (let head_i = nearest_from anchor c cs
                      in mk tokens ''indirect'' (infer_sequence_from_head tokens head_i)
                            (Some head_i) ''headverb_sentence_unit'')
                 | [] \<Rightarrow>
                     (let finite_in_seg =
                            filter (\<lambda>j. is_finite_verb (tokens ! j)) [seg_start ..< seg_end + 1]
                      in if (case ap_i of None \<Rightarrow> False | Some a \<Rightarrow> is_infinitive (tokens ! a)) \<and>
                            (finite_in_seg = [] \<or> finite_in_seg = [pv_i])
                         then (let pt = get_tense (tokens ! pv_i);
                                   seq = (if pt = Some ''Pres'' then Some ''primary''
                                          else if pt \<in> {Some ''Past'', Some ''Pqp''}
                                               then Some ''secondary''
                                          else None)
                               in mk tokens ''indirect'' seq None ''heuristic_infinitive_main'')
                         else mk tokens ''direct'' None None ''default_direct'')))"

text \<open>
  \<^verbatim>\<open>pick_apodosis\<close>.  \<^verbatim>\<open>after.sort(reverse=True); return after[0][1]\<close> takes the
  position of the greatest pair \<open>(score, position)\<close> in lexicographic order.
\<close>

definition is_candidate :: "token \<Rightarrow> bool" where
  "is_candidate tok =
     (if \<not> is_verb_upos tok then False else is_finite_verb tok \<or> is_infinitive tok)"

definition score :: "token list \<Rightarrow> children \<Rightarrow> nat \<Rightarrow> nat \<Rightarrow> int" where
  "score tokens ch prefer_after_i j =
     (let tj = tokens ! j;
          s0 = (if j \<ge> prefer_after_i then 6 - (int j - int prefer_after_i)
                else - 2 - (int prefer_after_i - int j));
          s1 = (if t_deprel tj = Some ''root'' then s0 + 8 else s0);
          s2 = (if t_upos tj = Some ''VERB'' then s1 + 2 else s1);
          s3 = (if is_indirect_head tj then s2 - 8 else s2);
          s4 = (if is_relative_like_verb tokens ch j then s3 - 50 else s3)
      in s4)"

fun greatest_item :: "int \<times> nat \<Rightarrow> (int \<times> nat) list \<Rightarrow> int \<times> nat" where
  "greatest_item best [] = best"
| "greatest_item best (x # xs) =
     greatest_item (if fst best < fst x \<or> (fst best = fst x \<and> snd best < snd x)
                    then x else best) xs"

definition pick_apodosis ::
  "token list \<Rightarrow> children \<Rightarrow> nat \<Rightarrow> nat set \<Rightarrow> nat set \<Rightarrow> nat \<Rightarrow> nat set \<Rightarrow> nat option" where
  "pick_apodosis tokens ch pv_i protasis_nodes blocked_nodes prefer_after_i forbidden =
     (let seg = segment_bounds tokens pv_i;
          cands = filter (\<lambda>j. \<not> (j \<in> protasis_nodes \<or> j \<in> blocked_nodes \<or> j \<in> forbidden)
                               \<and> is_candidate (tokens ! j))
                         [fst seg ..< snd seg + 1];
          items = map (\<lambda>j. (score tokens ch prefer_after_i j, j)) cands;
          after = filter (\<lambda>(s, j). j \<ge> prefer_after_i) items;
          before = filter (\<lambda>(s, j). \<not> j \<ge> prefer_after_i) items
      in case after of
           x # xs \<Rightarrow> Some (snd (greatest_item x xs))
         | [] \<Rightarrow> (case before of
                     x # xs \<Rightarrow> Some (snd (greatest_item x xs))
                   | [] \<Rightarrow> None))"

subsection \<open>Conditionals: the two passes\<close>

record protasis =
  si_index :: nat
  prot_pv_i :: nat
  prot_seg_start :: nat
  prot_seg_end :: nat
  protasis_nodes :: "nat set"

record seg_info =
  blocked_nodes :: "nat set"
  last_protasis_end :: int

text \<open>
  Pass 1, one iteration: the list \<^verbatim>\<open>protases\<close> and the dictionary
  \<^verbatim>\<open>seg_key_to_info\<close> after position \<open>i\<close>
  (\<^verbatim>\<open>setdefault(key, {"blocked_nodes": set(), "last_protasis_end": -1})\<close>).
\<close>

definition collect_protasis_step ::
  "token list \<Rightarrow> nat \<Rightarrow> protasis list \<times> (nat \<times> nat \<rightharpoonup> seg_info) \<Rightarrow>
   protasis list \<times> (nat \<times> nat \<rightharpoonup> seg_info)" where
  "collect_protasis_step tokens i st =
     (let tok = tokens ! i
      in if lower (tok_text tok) \<noteq> ''si'' \<and> lower (tok_lemma tok) \<noteq> ''si'' then st
         else if t_deprel tok \<noteq> Some ''mark'' then st
         else (case t_head tok of
                 None \<Rightarrow> st
               | Some head_id \<Rightarrow>
                   if head_id \<le> 0 then st
                   else (let pv_i = nat (head_id - 1)
                         in if \<not> pv_i < length tokens then st
                            else if has_strong_boundary_between tokens i pv_i then st
                            else if \<not> is_verb_upos (tokens ! pv_i) then st
                            else (let seg = segment_bounds tokens pv_i;
                                      seg_start = fst seg; seg_end = snd seg;
                                      cb = comma_clause_bounds tokens pv_i seg_start seg_end True;
                                      prot_left = min (fst cb) i;
                                      prot_right = snd cb;
                                      nodes = set [prot_left ..< prot_right + 1];
                                      key = (seg_start, seg_end);
                                      info = (case snd st key of
                                                None \<Rightarrow> \<lparr>blocked_nodes = {}, last_protasis_end = - 1\<rparr>
                                              | Some x \<Rightarrow> x);
                                      info' = \<lparr>blocked_nodes = blocked_nodes info \<union> nodes,
                                               last_protasis_end =
                                                 max (last_protasis_end info) (int prot_right)\<rparr>
                                  in (fst st @ [\<lparr>si_index = i, prot_pv_i = pv_i,
                                                 prot_seg_start = seg_start, prot_seg_end = seg_end,
                                                 protasis_nodes = nodes\<rparr>],
                                      (snd st)(key \<mapsto> info'))))))"

definition collect_protases ::
  "token list \<Rightarrow> protasis list \<times> (nat \<times> nat \<rightharpoonup> seg_info)" where
  "collect_protases tokens =
     fold (collect_protasis_step tokens) [0 ..< length tokens] ([], Map.empty)"

text \<open>
  Pass 2: the apodosis, the discourse and the label of one protasis.  The second
  \<open>pick_apodosis\<close> runs only when the first choice is the inferred head verb.
\<close>

definition resolve_apodosis ::
  "token list \<Rightarrow> children \<Rightarrow> nat \<Rightarrow> nat \<Rightarrow> nat \<Rightarrow> nat set \<Rightarrow> nat set \<Rightarrow> nat \<Rightarrow>
   nat option \<times> disc_info" where
  "resolve_apodosis tokens ch pv_i seg_start seg_end nodes blocked prefer_after_i =
     (let ap_i = pick_apodosis tokens ch pv_i nodes blocked prefer_after_i {};
          disc = infer_discourse tokens pv_i ap_i seg_start seg_end;
          forbidden = (case head_verb_index disc of None \<Rightarrow> {} | Some h \<Rightarrow> {h})
      in if forbidden \<noteq> {} \<and> (case ap_i of None \<Rightarrow> False | Some a \<Rightarrow> a \<in> forbidden)
         then (case pick_apodosis tokens ch pv_i nodes blocked prefer_after_i forbidden of
                 None \<Rightarrow> (ap_i, disc)
               | Some alt \<Rightarrow>
                   (Some alt, infer_discourse tokens pv_i (Some alt) seg_start seg_end))
         else (ap_i, disc))"

definition apodosis_span :: "token list \<Rightarrow> children \<Rightarrow> nat \<Rightarrow> nat \<Rightarrow> nat \<Rightarrow> nat \<times> nat" where
  "apodosis_span tokens ch ap_i seg_start seg_end =
     (let cb = comma_clause_bounds tokens ap_i seg_start seg_end True;
          ap_start = fst cb; ap_end = snd cb
      in if int ap_end - int ap_start < 1
         then (let clamp = comma_clause_bounds tokens ap_i seg_start seg_end True;
                   clamp_left = fst clamp; clamp_right = snd clamp;
                   ap_nodes = filter (\<lambda>j. in_subtree tokens ch ap_i j = Some True)
                                     [clamp_left ..< clamp_right + 1]
               in if ap_nodes \<noteq> []
                  then (max clamp_left (Min (set ap_nodes)), min clamp_right (Max (set ap_nodes)))
                  else (ap_start, ap_end))
         else (ap_start, ap_end))"

definition conditional_tags_for ::
  "token list \<Rightarrow> children \<Rightarrow> (nat \<times> nat \<rightharpoonup> seg_info) \<Rightarrow> protasis \<Rightarrow> tag list" where
  "conditional_tags_for tokens ch seg_key_to_info item =
     (let i = si_index item;
          pv_i = prot_pv_i item;
          seg_start = prot_seg_start item; seg_end = prot_seg_end item;
          nodes = protasis_nodes item;
          seg = (case seg_key_to_info (seg_start, seg_end) of
                   None \<Rightarrow> \<lparr>blocked_nodes = {}, last_protasis_end = int pv_i\<rparr>
                 | Some x \<Rightarrow> x);
          blocked = blocked_nodes seg - nodes;
          prefer_after_i = nat (max (int pv_i) (last_protasis_end seg));
          res = resolve_apodosis tokens ch pv_i seg_start seg_end nodes blocked prefer_after_i;
          ap_i = fst res; disc = snd res;
          lbl = classify_conditional tokens ch (Some pv_i) ap_i (Some disc);
          pv_sig = predicate_signature tokens ch (Some pv_i);
          av_sig = (case ap_i of None \<Rightarrow> None
                    | Some a \<Rightarrow> Some (predicate_signature tokens ch (Some a)));
          apodosis_form =
            (case ap_i of
               None \<Rightarrow> None
             | Some a \<Rightarrow> if is_infinitive (tokens ! a) then Some ''infinitive''
                         else if is_finite_verb (tokens ! a) then Some ''finite''
                         else None);
          apodosis_inf_tense =
            (case ap_i of
               None \<Rightarrow> None
             | Some a \<Rightarrow> if is_infinitive (tokens ! a)
                         then infer_infinitive_time tokens ch (Some a) else None);
          meta = \<lparr>label = lbl,
                  meta_discourse = discourse disc,
                  meta_sequence = sequence disc,
                  meta_statement = statement disc,
                  meta_head_verb_index = head_verb_index disc,
                  meta_head_verb_tense = head_verb_tense disc,
                  prot_verb_index = pv_i,
                  prot_sig = pv_sig,
                  apod_verb_index = ap_i,
                  apod_sig = av_sig,
                  apod_form = apodosis_form,
                  apod_inf_time = apodosis_inf_tense\<rparr>;
          sub = (if lbl = [] then ''unknown'' else lbl);
          prot_span_nodes = insert pv_i (insert i nodes);
          prot_start = max seg_start (Min prot_span_nodes);
          prot_end = min seg_end (Max prot_span_nodes);
          ap_val = (case ap_i of None \<Rightarrow> TNone | Some a \<Rightarrow> TInt a);
          prot_tag =
            \<lparr>tag_type = ''conditional_protasis'', subtype = Some sub,
             tag_start = prot_start, tag_end = prot_end,
             highlight_spans = Some [(prot_start, prot_end)], full_span = None,
             confidence = 83, conditional = Some meta,
             trigger = [(''si_index'', TInt i), (''protasis_verb_index'', TInt pv_i),
                        (''apodosis_verb_index'', ap_val), (''rule'', TStr ''si+head'')]\<rparr>
      in case ap_i of
           None \<Rightarrow> [prot_tag]
         | Some a \<Rightarrow>
             (let sp = apodosis_span tokens ch a seg_start seg_end
              in [prot_tag,
                  \<lparr>tag_type = ''conditional_apodosis'', subtype = Some sub,
                   tag_start = fst sp, tag_end = snd sp,
                   highlight_spans = Some [(fst sp, snd sp)], full_span = None,
                   confidence = 80, conditional = Some meta,
                   trigger = [(''si_index'', TInt i), (''protasis_verb_index'', TInt pv_i),
                              (''apodosis_verb_index'', ap_val),
                              (''rule'', TStr ''main-clause-bound-by-commas'')]\<rparr>]))"

definition tag_conditionals :: "token list \<Rightarrow> tag list" where
  "tag_conditionals tokens =
     (let ch = build_children tokens;
          p1 = collect_protases tokens
      in concat (map (conditional_tags_for tokens ch (snd p1)) (fst p1)))"

subsection \<open>Relative clauses\<close>

text \<open>
  The ancestor walk of \<^verbatim>\<open>tag_relative_clauses\<close>, at most six hops:
  \<^verbatim>\<open>
    for _ in range(6):
        head_id = tokens[cur].get("head", 0)
        if not isinstance(head_id, int) or head_id <= 0: break
        nxt = head_id - 1
        if nxt in seen or not (0 <= nxt < n): break
        if has_strong_boundary_between(tokens, i, nxt): break
        seen.add(nxt); cur = nxt
        if tokens[cur].get("upos") in ("VERB", "AUX") and is_finite_verb(tokens[cur]):
            vi = cur
            if tokens[cur].get("deprel") == "acl:relcl": break
  \<close>
\<close>

fun rel_walk ::
  "token list \<Rightarrow> nat \<Rightarrow> nat \<Rightarrow> nat \<Rightarrow> nat set \<Rightarrow> nat option \<Rightarrow> nat option" where
  "rel_walk tokens i 0 cur seen vi = vi"
| "rel_walk tokens i (Suc hops) cur seen vi =
     (case t_head (tokens ! cur) of
        None \<Rightarrow> vi
      | Some head_id \<Rightarrow>
          if head_id \<le> 0 then vi
          else (let nxt = nat (head_id - 1)
                in if nxt \<in> seen \<or> \<not> nxt < length tokens then vi
                   else if has_strong_boundary_between tokens i nxt then vi
                   else if is_verb_upos (tokens ! nxt) \<and> is_finite_verb (tokens ! nxt)
                   then (if t_deprel (tokens ! nxt) = Some ''acl:relcl'' then Some nxt
                         else rel_walk tokens i hops nxt (insert nxt seen) (Some nxt))
                   else rel_walk tokens i hops nxt (insert nxt seen) vi))"

definition relative_clause_at :: "token list \<Rightarrow> nat \<Rightarrow> tag list" where
  "relative_clause_at tokens i =
     (let tok = tokens ! i;
          feats = feats_or_empty (t_feats tok)
      in if \<not> feats_has feats ''PronType'' ''Rel'' then []
         else if t_upos tok \<notin> {Some ''PRON'', Some ''DET''} then []
         else if lower (tok_lemma tok) \<in> {''cum'', ''ut''} then []
         else (case rel_walk tokens i 6 i {} None of
                 None \<Rightarrow> []
               | Some vi \<Rightarrow>
                   if has_strong_boundary_between tokens i vi then []
                   else (let m = get_mood (tokens ! vi);
                             sub = (if m = Some ''Sub'' then Some ''subjunctive''
                                    else if m = Some ''Ind'' then Some ''indicative''
                                    else None)
                         in case sub of
                              None \<Rightarrow> []
                            | Some s \<Rightarrow>
                                [\<lparr>tag_type = ''relative_clause'', subtype = Some s,
                                  tag_start = min i vi, tag_end = max i vi,
                                  highlight_spans = Some [(i, i), (vi, vi)], full_span = None,
                                  confidence = (if s = ''indicative'' then 91 else 90),
                                  conditional = None,
                                  trigger = [(''rel_pron_index'', TInt i),
                                             (''verb_index'', TInt vi),
                                             (''rule'', TStr ''PronType=Rel+finite'')]\<rparr>])))"

definition tag_relative_clauses :: "token list \<Rightarrow> tag list" where
  "tag_relative_clauses tokens = concat (map (relative_clause_at tokens) [0 ..< length tokens])"

subsection \<open>Auxiliary notions used in the statements\<close>

text \<open>\<^verbatim>\<open>isinstance(feats, dict)\<close>\<close>

definition is_dict_bag :: "feats_bag \<Rightarrow> bool" where
  "is_dict_bag f = (case f of FDict m \<Rightarrow> True | _ \<Rightarrow> False)"

text \<open>The keys a feature string defines: the text before the first \<^verbatim>\<open>=\<close> of each part that has one.\<close>

definition string_bag_keys :: "string \<Rightarrow> string list" where
  "string_bag_keys s =
     map (takeWhile (\<lambda>c. c \<noteq> CHR ''=''))
         (filter (\<lambda>part. CHR ''='' \<in> set part) (split_on CHR ''|'' s))"

subsection \<open>Example sentences\<close>

text \<open>\<^verbatim>\<open>pugnandi causa\<close>: a gerund and the noun that governs it.\<close>

definition gerund_example :: "token list" where
  "gerund_example =
     [\<lparr>t_text = Some ''pugnandi'', t_lemma = Some ''pugno'', t_upos = Some ''VERB'',
       t_feats = FStr ''Aspect=Prosp|Case=Gen|Gender=Neut|Number=Sing|VerbForm=Part|Voice=Pass'',
       t_head = Some 2, t_deprel = Some ''acl''\<rparr>,
      \<lparr>t_text = Some ''causa'', t_lemma = Some ''causa'', t_upos = Some ''NOUN'',
       t_feats = FStr ''Case=Abl|Gender=Fem|Number=Sing'',
       t_head = Some 0, t_deprel = Some ''root''\<rparr>]"

text \<open>\<^verbatim>\<open>veniens est factus\<close>: a copula with two participial children.\<close>

definition two_participles_example :: "token list" where
  "two_participles_example =
     [\<lparr>t_text = Some ''veniens'', t_lemma = Some ''venio'', t_upos = Some ''VERB'',
       t_feats = FStr ''Aspect=Imp|Case=Nom|Gender=Masc|Number=Sing|Tense=Pres|VerbForm=Part|Voice=Act'',
       t_head = Some 2, t_deprel = Some ''advcl''\<rparr>,
      \<lparr>t_text = Some ''est'', t_lemma = Some ''sum'', t_upos = Some ''AUX'',
       t_feats = FStr ''Mood=Ind|Number=Sing|Person=3|Tense=Pres|VerbForm=Fin|Voice=Act'',
       t_head = Some 0, t_deprel = Some ''root''\<rparr>,
      \<lparr>t_text = Some ''factus'', t_lemma = Some ''facio'', t_upos = Some ''VERB'',
       t_feats = FStr ''Aspect=Perf|Case=Nom|Gender=Masc|Number=Sing|Tense=Past|VerbForm=Part|Voice=Pass'',
       t_head = Some 2, t_deprel = Some ''xcomp''\<rparr>]"

text \<open>\<^verbatim>\<open>captus erat\<close>: the copula as head of its participle.\<close>

definition periphrastic_example :: "token list" where
  "periphrastic_example =
     [\<lparr>t_text = Some ''captus'', t_lemma = Some ''capio'', t_upos = Some ''VERB'',
       t_feats = FStr ''Aspect=Perf|Case=Nom|Gender=Masc|Number=Sing|Tense=Past|VerbForm=Part|Voice=Pass'',
       t_head = Some 2, t_deprel = Some ''xcomp''\<rparr>,
      \<lparr>t_text = Some ''erat'', t_lemma = Some ''sum'', t_upos = Some ''AUX'',
       t_feats = FStr ''Aspect=Imp|Mood=Ind|Number=Sing|Person=3|Tense=Past|VerbForm=Fin|Voice=Act'',
       t_head = Some 0, t_deprel = Some ''root''\<rparr>]"

text \<open>A feature is present (a non-empty value) on both tokens, with the same value.\<close>

definition present_and_equal :: "token \<Rightarrow> token \<Rightarrow> string \<Rightarrow> bool" where
  "present_and_equal a b key =
     (case feats_get (t_feats a) key of
        None \<Rightarrow> False
      | Some v \<Rightarrow> v \<noteq> [] \<and> feats_get (t_feats b) key = Some v)"

text \<open>\<^verbatim>\<open>urbe capta\<close>: an ablative absolute.\<close>

definition abl_abs_example :: "token list" where
  "abl_abs_example =
     [\<lparr>t_text = Some ''urbe'', t_lemma = Some ''urbs'', t_upos = Some ''NOUN'',
       t_feats = FStr ''Case=Abl|Gender=Fem|Number=Sing'',
       t_head = Some 2, t_deprel = Some ''nsubj:pass''\<rparr>,
      \<lparr>t_text = Some ''capta'', t_lemma = Some ''capio'', t_upos = Some ''VERB'',
       t_feats = FStr ''Aspect=Perf|Case=Abl|Gender=Fem|Number=Sing|Tense=Past|VerbForm=Part|Voice=Pass'',
       t_head = Some 0, t_deprel = Some ''root''\<rparr>]"

text \<open>The same pair with no \<^verbatim>\<open>Gender\<close> on the noun.\<close>

definition abl_abs_missing_example :: "token list" where
  "abl_abs_missing_example =
     [\<lparr>t_text = Some ''urbe'', t_lemma = Some ''urbs'', t_upos = Some ''NOUN'',
       t_feats = FStr ''Case=Abl|Number=Sing'',
       t_head = Some 2, t_deprel = Some ''nsubj:pass''\<rparr>,
      \<lparr>t_text = Some ''capta'', t_lemma = Some ''capio'', t_upos = Some ''VERB'',
       t_feats = FStr ''Aspect=Perf|Case=Abl|Gender=Fem|Number=Sing|Tense=Past|VerbForm=Part|Voice=Pass'',
       t_head = Some 0, t_deprel = Some ''root''\<rparr>]"

text \<open>\<^verbatim>\<open>cum Caesar in Galliam citeriorem venisset\<close>: the marker at position 0, its verb at 5.\<close>

definition cum_example :: "token list" where
  "cum_example =
     [\<lparr>t_text = Some ''cum'', t_lemma = Some ''cum'', t_upos = Some ''SCONJ'',
       t_feats = FNone, t_head = Some 6, t_deprel = Some ''mark''\<rparr>,
      \<lparr>t_text = Some ''Caesar'', t_lemma = Some ''Caesar'', t_upos = Some ''PROPN'',
       t_feats = FStr ''Case=Nom|Gender=Masc|Number=Sing'',
       t_head = Some 6, t_deprel = Some ''nsubj''\<rparr>,
      \<lparr>t_text = Some ''in'', t_lemma = Some ''in'', t_upos = Some ''ADP'',
       t_feats = FNone, t_head = Some 4, t_deprel = Some ''case''\<rparr>,
      \<lparr>t_text = Some ''Galliam'', t_lemma = Some ''Gallia'', t_upos = Some ''PROPN'',
       t_feats = FStr ''Case=Acc|Gender=Fem|Number=Sing'',
       t_head = Some 6, t_deprel = Some ''obl''\<rparr>,
      \<lparr>t_text = Some ''citeriorem'', t_lemma = Some ''citerior'', t_upos = Some ''ADJ'',
       t_feats = FStr ''Case=Acc|Gender=Fem|Number=Sing'',
       t_head = Some 4, t_deprel = Some ''amod''\<rparr>,
      \<lparr>t_text = Some ''venisset'', t_lemma = Some ''venio'', t_upos = Some ''VERB'',
       t_feats = FStr ''Aspect=Perf|Mood=Sub|Number=Sing|Person=3|Tense=Past|VerbForm=Fin|Voice=Act'',
       t_head = Some 0, t_deprel = Some ''root''\<rparr>]"

text \<open>\<^verbatim>\<open>venisset , cum\<close>: the marker attached to a verb that precedes it.\<close>

definition inverted_cum_example :: "token list" where
  "inverted_cum_example =
     [\<lparr>t_text = Some ''venisset'', t_lemma = Some ''venio'', t_upos = Some ''VERB'',
       t_feats = FStr ''Aspect=Perf|Mood=Sub|Number=Sing|Person=3|Tense=Past|VerbForm=Fin|Voice=Act'',
       t_head = Some 0, t_deprel = Some ''root''\<rparr>,
      \<lparr>t_text = Some '','', t_lemma = Some '','', t_upos = Some ''PUNCT'',
       t_feats = FNone, t_head = Some 1, t_deprel = Some ''punct''\<rparr>,
      \<lparr>t_text = Some ''cum'', t_lemma = Some ''cum'', t_upos = Some ''SCONJ'',
       t_feats = FNone, t_head = Some 1, t_deprel = Some ''mark''\<rparr>]"

text \<open>The tag the cum-clause detector builds on \<open>inverted_cum_example\<close>.\<close>

definition inverted_cum_tag :: tag where
  "inverted_cum_tag =
     \<lparr>tag_type = ''cum_clause'', subtype = None, tag_start = 2, tag_end = 0,
      highlight_spans = None, full_span = None, confidence = 90, conditional = None,
      trigger = [(''cum_index'', TInt 2), (''verb_index'', TInt 0)]\<rparr>"







text \<open>\<^verbatim>\<open>si id fecisset , eum punivisset\<close>: both verbs pluperfect subjunctive.\<close>

definition contrafactual_example :: "token list" where
  "contrafactual_example =
     [\<lparr>t_text = Some ''si'', t_lemma = Some ''si'', t_upos = Some ''SCONJ'',
       t_feats = FNone, t_head = Some 3, t_deprel = Some ''mark''\<rparr>,
      \<lparr>t_text = Some ''id'', t_lemma = Some ''is'', t_upos = Some ''PRON'',
       t_feats = FStr ''Case=Acc|Gender=Neut|Number=Sing|PronType=Dem'',
       t_head = Some 3, t_deprel = Some ''obj''\<rparr>,
      \<lparr>t_text = Some ''fecisset'', t_lemma = Some ''facio'', t_upos = Some ''VERB'',
       t_feats = FStr ''Aspect=Perf|Mood=Sub|Number=Sing|Person=3|Tense=Past|VerbForm=Fin|Voice=Act'',
       t_head = Some 6, t_deprel = Some ''advcl''\<rparr>,
      \<lparr>t_text = Some '','', t_lemma = Some '','', t_upos = Some ''PUNCT'',
       t_feats = FNone, t_head = Some 3, t_deprel = Some ''punct''\<rparr>,
      \<lparr>t_text = Some ''eum'', t_lemma = Some ''is'', t_upos = Some ''PRON'',
       t_feats = FStr ''Case=Acc|Gender=Masc|Number=Sing|PronType=Dem'',
       t_head = Some 6, t_deprel = Some ''obj''\<rparr>,
      \<lparr>t_text = Some ''punivisset'', t_lemma = Some ''punio'', t_upos = Some ''VERB'',
       t_feats = FStr ''Aspect=Perf|Mood=Sub|Number=Sing|Person=3|Tense=Past|VerbForm=Fin|Voice=Act'',
       t_head = Some 0, t_deprel = Some ''root''\<rparr>]"

text \<open>Projections of a tag used to state what a detector returned.\<close>

definition tag_summary :: "tag \<Rightarrow> string \<times> string option \<times> nat \<times> nat" where
  "tag_summary t = (tag_type t, subtype t, tag_start t, tag_end t)"

definition tag_inputs :: "tag \<Rightarrow> (pred_sig \<times> pred_sig option \<times> string) option" where
  "tag_inputs t = map_option (\<lambda>m. (prot_sig m, apod_sig m, meta_discourse m)) (conditional t)"

definition tag_choice :: "tag \<Rightarrow> (nat option \<times> nat option \<times> string) option" where
  "tag_choice t =
     map_option (\<lambda>m. (apod_verb_index m, meta_head_verb_index m, meta_statement m))
                (conditional t)"

text \<open>
  Three sentences whose verbs carry no \<^verbatim>\<open>VerbForm\<close>: \<^verbatim>\<open>cum venisset\<close>,
  \<^verbatim>\<open>vir qui venit\<close> and \<^verbatim>\<open>dicit , si venit , manet\<close>.
\<close>

definition bare_verb :: "string \<Rightarrow> string \<Rightarrow> string \<Rightarrow> int \<Rightarrow> string \<Rightarrow> token" where
  "bare_verb form lem fs h dep =
     \<lparr>t_text = Some form, t_lemma = Some lem, t_upos = Some ''VERB'',
      t_feats = FStr fs, t_head = Some h, t_deprel = Some dep\<rparr>"

definition bare_cum_example :: "token list" where
  "bare_cum_example =
     [\<lparr>t_text = Some ''cum'', t_lemma = Some ''cum'', t_upos = Some ''SCONJ'',
       t_feats = FNone, t_head = Some 2, t_deprel = Some ''mark''\<rparr>,
      bare_verb ''venisset'' ''venio'' ''Aspect=Perf|Mood=Sub|Number=Sing|Person=3|Tense=Past|Voice=Act''
        0 ''root'']"

definition bare_relative_example :: "token list" where
  "bare_relative_example =
     [\<lparr>t_text = Some ''vir'', t_lemma = Some ''vir'', t_upos = Some ''NOUN'',
       t_feats = FStr ''Case=Nom|Gender=Masc|Number=Sing'',
       t_head = Some 0, t_deprel = Some ''root''\<rparr>,
      \<lparr>t_text = Some ''qui'', t_lemma = Some ''qui'', t_upos = Some ''PRON'',
       t_feats = FStr ''Case=Nom|Gender=Masc|Number=Sing|PronType=Rel'',
       t_head = Some 3, t_deprel = Some ''nsubj''\<rparr>,
      bare_verb ''venit'' ''venio'' ''Mood=Ind|Number=Sing|Person=3|Tense=Pres|Voice=Act''
        1 ''acl:relcl'']"

definition bare_conditional_example :: "token list" where
  "bare_conditional_example =
     [bare_verb ''dicit'' ''dico'' ''Mood=Ind|Number=Sing|Person=3|Tense=Pres|Voice=Act'' 0 ''root'',
      \<lparr>t_text = Some '','', t_lemma = Some '','', t_upos = Some ''PUNCT'',
       t_feats = FNone, t_head = Some 4, t_deprel = Some ''punct''\<rparr>,
      \<lparr>t_text = Some ''si'', t_lemma = Some ''si'', t_upos = Some ''SCONJ'',
       t_feats = FNone, t_head = Some 4, t_deprel = Some ''mark''\<rparr>,
      bare_verb ''venit'' ''venio'' ''Mood=Ind|Number=Sing|Person=3|Tense=Pres|Voice=Act''
        6 ''advcl'',
      \<lparr>t_text = Some '','', t_lemma = Some '','', t_upos = Some ''PUNCT'',
       t_feats = FNone, t_head = Some 4, t_deprel = Some ''punct''\<rparr>,
      bare_verb ''manet'' ''maneo'' ''Mood=Ind|Number=Sing|Person=3|Tense=Pres|Voice=Act''
        1 ''ccomp'']"

text \<open>
  The UD feature string of a list of key/value pairs, \<^verbatim>\<open>K1=V1|K2=V2|...\<close>, and the pairs
  for which that string reads back unambiguously: no \<^verbatim>\<open>=\<close> or \<^verbatim>\<open>|\<close> in a key, no
  \<^verbatim>\<open>|\<close> in a value.
\<close>

fun join_bar :: "string list \<Rightarrow> string" where
  "join_bar [] = []"
| "join_bar [p] = p"
| "join_bar (p # q # ps) = p @ CHR ''|'' # join_bar (q # ps)"

definition render_feats :: "(string \<times> string) list \<Rightarrow> string" where
  "render_feats kvs = join_bar (map (\<lambda>(k, v). k @ CHR ''='' # v) kvs)"

definition plain_pairs :: "(string \<times> string) list \<Rightarrow> bool" where
  "plain_pairs kvs =
     list_all (\<lambda>(k, v). CHR ''='' \<notin> set k \<and> CHR ''|'' \<notin> set k \<and> CHR ''|'' \<notin> set v) kvs"

section \<open>Properties\<close>

subsection \<open>Basic facts\<close>

lemma feats_or_empty_get [simp]: "feats_get (feats_or_empty f) k = feats_get f k"
  by (cases f) simp_all

lemma truthy_iff: "truthy x \<longleftrightarrow> (\<exists>v. x = Some v \<and> v \<noteq> [])"
  by (cases x) auto

text \<open>Every child recorded by \<open>build_children\<close> is a position whose head is its parent.\<close>

lemma build_children_fold_inv:
  "length ch = length tokens \<Longrightarrow>
   (\<forall>h < length tokens. \<forall>c \<in> set (ch ! h). c < length tokens \<and> t_head (tokens ! c) = Some (int h + 1)) \<Longrightarrow>
   set is \<subseteq> {..<length tokens} \<Longrightarrow>
   length (fold (build_children_step tokens) is ch) = length tokens \<and>
   (\<forall>h < length tokens. \<forall>c \<in> set (fold (build_children_step tokens) is ch ! h).
        c < length tokens \<and> t_head (tokens ! c) = Some (int h + 1))"
proof (induction "is" arbitrary: ch)
  case Nil
  then show ?case by simp
next
  case (Cons i "is")
  let ?ch = "build_children_step tokens i ch"
  have i: "i < length tokens" using Cons.prems(3) by simp
  have len: "length ?ch = length tokens"
    using Cons.prems(1) by (simp add: build_children_step_def Let_def split: option.splits)
  have inv: "\<forall>h < length tokens. \<forall>c \<in> set (?ch ! h).
                c < length tokens \<and> t_head (tokens ! c) = Some (int h + 1)"
  proof (intro allI impI ballI)
    fix h c assume h: "h < length tokens" and c: "c \<in> set (?ch ! h)"
    show "c < length tokens \<and> t_head (tokens ! c) = Some (int h + 1)"
    proof (cases "c \<in> set (ch ! h)")
      case True
      with Cons.prems(2) h show ?thesis by blast
    next
      case False
      with c h Cons.prems(1) have "c = i \<and> t_head (tokens ! i) = Some (int h + 1)"
        by (auto simp: build_children_step_def Let_def nth_list_update
                 split: option.splits if_splits)
      with i show ?thesis by simp
    qed
  qed
  from Cons.IH [OF len inv] Cons.prems(3) show ?case by simp
qed

lemma build_children_sound:
  assumes "c \<in> set (children_get (build_children tokens) h)"
  shows "c < length tokens \<and> h < length tokens \<and> t_head (tokens ! c) = Some (int h + 1)"
proof -
  have inv: "length (build_children tokens) = length tokens \<and>
        (\<forall>h < length tokens. \<forall>c \<in> set (build_children tokens ! h).
            c < length tokens \<and> t_head (tokens ! c) = Some (int h + 1))"
    unfolding build_children_def
    by (rule build_children_fold_inv) auto
  from assms inv have h: "h < length tokens"
    by (auto simp: children_get_def split: if_splits)
  with assms inv show ?thesis by (auto simp: children_get_def)
qed

lemma concat_map_all_Nil: "(\<And>x. x \<in> set xs \<Longrightarrow> f x = []) \<Longrightarrow> concat (map f xs) = []"
  by (induction xs) auto

subsection \<open>Span bounds\<close>

lemma dedup_tags_keeps_first: "dedup_tags (t # ts) = t # dedup_loop [tag_key t] ts"
  by (simp add: dedup_tags_def)

text \<open>
  Claim C1 says that every tag left after deduplication has \<open>start \<le> end\<close>.  On
  \<open>inverted_cum_example\<close> the cum-clause detector, which runs first, emits a tag that
  starts at the marker (position 2) and ends where \<open>find_next_boundary\<close> stops after
  the verb (position 0); it is the first tag of the sentence, so deduplication keeps it
  whatever the other detectors add.
\<close>

theorem cum_clause_inverted_span:
  "tag_cum_clauses inverted_cum_example = [inverted_cum_tag] \<and>
   tag_end inverted_cum_tag < tag_start inverted_cum_tag \<and>
   hd (dedup_tags (tag_cum_clauses inverted_cum_example @ others)) = inverted_cum_tag"
proof -
  have a: "tag_cum_clauses inverted_cum_example = [inverted_cum_tag]" by code_simp
  have b: "tag_end inverted_cum_tag < tag_start inverted_cum_tag" by code_simp
  from a b show ?thesis by (simp add: dedup_tags_keeps_first)
qed

subsection \<open>Conditional classification and its inputs\<close>






subsection \<open>Ablative absolutes\<close>

lemma abl_noun_ok_agrees:
  assumes "abl_noun_ok tokens (get_feat (feats_or_empty (t_feats p)) ''Gender'')
             (get_feat (feats_or_empty (t_feats p)) ''Number'') n"
  shows "present_and_equal p (tokens ! n) ''Gender'' \<and> present_and_equal p (tokens ! n) ''Number''
         \<and> is_nounish (tokens ! n) \<and> feats_get (t_feats (tokens ! n)) ''Case'' = Some ''Abl''"
  using assms
  by (auto simp: abl_noun_ok_def Let_def get_feat_def present_and_equal_def truthy_iff feats_has_def
           split: if_splits)

lemma abl_abs_at_elem:
  assumes "t \<in> set (abl_abs_at tokens ch i)"
  shows "\<exists>n. n \<in> set (children_get ch i) \<and>
             tag_type t = ''abl_abs'' \<and>
             trigger t = [(''part_index'', TInt i), (''abl_noun_index'', TInt n)] \<and>
             tag_start t = min i n \<and> tag_end t = max i n \<and>
             highlight_spans t = Some [(i, i), (n, n)] \<and>
             t_upos (tokens ! i) = Some ''VERB'' \<and>
             feats_get (t_feats (tokens ! i)) ''VerbForm'' = Some ''Part'' \<and>
             feats_get (t_feats (tokens ! i)) ''Case'' = Some ''Abl'' \<and>
             is_nounish (tokens ! n) \<and>
             feats_get (t_feats (tokens ! n)) ''Case'' = Some ''Abl'' \<and>
             present_and_equal (tokens ! i) (tokens ! n) ''Gender'' \<and>
             present_and_equal (tokens ! i) (tokens ! n) ''Number''"
proof -
  let ?p = "tokens ! i"
  let ?ok = "abl_noun_ok tokens (get_feat (feats_or_empty (t_feats ?p)) ''Gender'')
               (get_feat (feats_or_empty (t_feats ?p)) ''Number'')"
  from assms have anchor: "t_upos ?p = Some ''VERB''"
      "feats_get (t_feats ?p) ''VerbForm'' = Some ''Part''"
      "feats_get (t_feats ?p) ''Case'' = Some ''Abl''"
    by (auto simp: abl_abs_at_def Let_def feats_has_def split: if_splits)
  from assms anchor obtain n where n: "find ?ok (children_get ch i) = Some n"
    and t: "t = \<lparr>tag_type = ''abl_abs'', subtype = None,
                 tag_start = min i n, tag_end = max i n,
                 highlight_spans = Some [(i, i), (n, n)], full_span = None,
                 confidence = 88, conditional = None,
                 trigger = [(''part_index'', TInt i), (''abl_noun_index'', TInt n)]\<rparr>"
    by (auto simp: abl_abs_at_def Let_def feats_has_def split: if_splits option.splits)
  from n have mem: "n \<in> set (children_get ch i)" and ok: "?ok n"
    by (auto simp: find_Some_iff)
  from abl_noun_ok_agrees [OF ok] mem t anchor show ?thesis by auto
qed

text \<open>
  Claim C3: an \<^verbatim>\<open>abl_abs\<close> tag is produced only for a participle and an ablative
  noun-ish child on both of which Gender and Number are present, with equal values; for
  a pair with any of the four values missing (or unequal) no tag is produced.  The
  detector is a function of the token list alone, so the same list always yields the
  same tags.
\<close>

theorem abl_abs_requires_agreement:
  "(\<forall>t \<in> set (tag_ablative_absolutes tokens).
      \<exists>i n. tag_type t = ''abl_abs'' \<and>
            trigger t = [(''part_index'', TInt i), (''abl_noun_index'', TInt n)] \<and>
            i < length tokens \<and> n < length tokens \<and>
            t_head (tokens ! n) = Some (int i + 1) \<and>
            present_and_equal (tokens ! i) (tokens ! n) ''Gender'' \<and>
            present_and_equal (tokens ! i) (tokens ! n) ''Number'') \<and>
   (\<forall>i n. \<not> (present_and_equal (tokens ! i) (tokens ! n) ''Gender'' \<and>
               present_and_equal (tokens ! i) (tokens ! n) ''Number'') \<longrightarrow>
          \<not> (\<exists>t \<in> set (tag_ablative_absolutes tokens).
                trigger t = [(''part_index'', TInt i), (''abl_noun_index'', TInt n)]))"
proof -
  have elem: "\<exists>i n. tag_type t = ''abl_abs'' \<and>
            trigger t = [(''part_index'', TInt i), (''abl_noun_index'', TInt n)] \<and>
            i < length tokens \<and> n < length tokens \<and>
            t_head (tokens ! n) = Some (int i + 1) \<and>
            present_and_equal (tokens ! i) (tokens ! n) ''Gender'' \<and>
            present_and_equal (tokens ! i) (tokens ! n) ''Number''"
    if "t \<in> set (tag_ablative_absolutes tokens)" for t
  proof -
    from that obtain i where i: "i < length tokens"
      and t: "t \<in> set (abl_abs_at tokens (build_children tokens) i)"
      by (auto simp: tag_ablative_absolutes_def Let_def)
    from abl_abs_at_elem [OF t] obtain n where
      n: "n \<in> set (children_get (build_children tokens) i)"
      and rest: "tag_type t = ''abl_abs''"
        "trigger t = [(''part_index'', TInt i), (''abl_noun_index'', TInt n)]"
        "present_and_equal (tokens ! i) (tokens ! n) ''Gender''"
        "present_and_equal (tokens ! i) (tokens ! n) ''Number''"
      by blast
    from build_children_sound [OF n] i rest show ?thesis by blast
  qed
  show ?thesis
  proof (intro conjI ballI allI impI)
    fix t assume "t \<in> set (tag_ablative_absolutes tokens)"
    then show "\<exists>i n. tag_type t = ''abl_abs'' \<and>
            trigger t = [(''part_index'', TInt i), (''abl_noun_index'', TInt n)] \<and>
            i < length tokens \<and> n < length tokens \<and>
            t_head (tokens ! n) = Some (int i + 1) \<and>
            present_and_equal (tokens ! i) (tokens ! n) ''Gender'' \<and>
            present_and_equal (tokens ! i) (tokens ! n) ''Number''"
      by (rule elem)
  next
    fix i n
    assume neg: "\<not> (present_and_equal (tokens ! i) (tokens ! n) ''Gender'' \<and>
               present_and_equal (tokens ! i) (tokens ! n) ''Number'')"
    show "\<not> (\<exists>t \<in> set (tag_ablative_absolutes tokens).
                trigger t = [(''part_index'', TInt i), (''abl_noun_index'', TInt n)])"
    proof
      assume "\<exists>t \<in> set (tag_ablative_absolutes tokens).
                trigger t = [(''part_index'', TInt i), (''abl_noun_index'', TInt n)]"
      then obtain t where t: "t \<in> set (tag_ablative_absolutes tokens)"
        and tr: "trigger t = [(''part_index'', TInt i), (''abl_noun_index'', TInt n)]" by blast
      from elem [OF t] tr neg show False by auto
    qed
  qed
qed

theorem abl_abs_requires_agreement_witness:
  "(\<exists>t \<in> set (tag_ablative_absolutes abl_abs_example).
      trigger t = [(''part_index'', TInt 1), (''abl_noun_index'', TInt 0)]) \<and>
   present_and_equal (abl_abs_example ! 1) (abl_abs_example ! 0) ''Gender'' \<and>
   present_and_equal (abl_abs_example ! 1) (abl_abs_example ! 0) ''Number'' \<and>
   \<not> present_and_equal (abl_abs_missing_example ! 1) (abl_abs_missing_example ! 0) ''Gender'' \<and>
   \<not> (\<exists>t \<in> set (tag_ablative_absolutes abl_abs_missing_example).
         trigger t = [(''part_index'', TInt 1), (''abl_noun_index'', TInt 0)])"
proof -
  have ex: "\<exists>t \<in> set (tag_ablative_absolutes abl_abs_example).
      trigger t = [(''part_index'', TInt 1), (''abl_noun_index'', TInt 0)]"
    by code_simp
  then obtain t where t: "t \<in> set (tag_ablative_absolutes abl_abs_example)"
    and tr: "trigger t = [(''part_index'', TInt 1), (''abl_noun_index'', TInt 0)]" by blast
  from abl_abs_requires_agreement [of abl_abs_example] t tr
  have agree: "present_and_equal (abl_abs_example ! 1) (abl_abs_example ! 0) ''Gender'' \<and>
               present_and_equal (abl_abs_example ! 1) (abl_abs_example ! 0) ''Number''"
    by fastforce
  have missing:
    "\<not> present_and_equal (abl_abs_missing_example ! 1) (abl_abs_missing_example ! 0) ''Gender''"
    by code_simp
  with abl_abs_requires_agreement [of abl_abs_missing_example]
  have "\<not> (\<exists>t \<in> set (tag_ablative_absolutes abl_abs_missing_example).
         trigger t = [(''part_index'', TInt 1), (''abl_noun_index'', TInt 0)])"
    by blast
  with ex agree missing show ?thesis by blast
qed

subsection \<open>Gerund and gerundive\<close>

text \<open>
  Claim C4: for every token that is a future-passive-participle form, exactly one of
  \<open>is_gerund\<close> and \<open>is_gerundive\<close> holds, never both and never neither; for every
  token that is not such a form, neither holds.  (Both functions return without an
  error in these two cases.)
\<close>

theorem gerund_gerundive_exclusive:
  assumes "gi < length tokens"
  shows "(is_future_passive_participle (tokens ! gi) = Inr True \<longrightarrow>
            (is_gerund tokens gi = Inr True \<and> is_gerundive tokens gi = Inr False) \<or>
            (is_gerund tokens gi = Inr False \<and> is_gerundive tokens gi = Inr True)) \<and>
         (is_future_passive_participle (tokens ! gi) = Inr False \<longrightarrow>
            is_gerund tokens gi = Inr False \<and> is_gerundive tokens gi = Inr False)"
  using assms by (auto simp: is_gerund_def is_gerundive_def Let_def)

theorem gerund_gerundive_exclusive_witness:
  "0 < length gerund_example \<and> 1 < length gerund_example \<and>
   is_future_passive_participle (gerund_example ! 0) = Inr True \<and>
   is_gerund gerund_example 0 = Inr True \<and> is_gerundive gerund_example 0 = Inr False \<and>
   is_future_passive_participle (gerund_example ! 1) = Inr False \<and>
   is_gerund gerund_example 1 = Inr False \<and> is_gerundive gerund_example 1 = Inr False"
proof -
  have len: "0 < length gerund_example" "1 < length gerund_example"
    by (simp_all add: gerund_example_def)
  have fpp: "is_future_passive_participle (gerund_example ! 0) = Inr True"
    by (simp add: gerund_example_def is_future_passive_participle_def is_verb_upos_def)
  have nfpp: "is_future_passive_participle (gerund_example ! 1) = Inr False"
    by (simp add: gerund_example_def is_future_passive_participle_def is_verb_upos_def)
  have g: "is_gerund gerund_example 0 = Inr True"
    by (simp add: is_gerund_def fpp len)
       (simp add: gerund_example_def is_neuter_singular_def feats_has_def head_agrees_def
                  is_nounish_def agrees_case_number_gender_def)
  from gerund_gerundive_exclusive [OF len(1)] gerund_gerundive_exclusive [OF len(2)]
       fpp nfpp g len
  show ?thesis by auto
qed

subsection \<open>Periphrastic predicates\<close>

text \<open>
  Claim C5, as stated, gives the perfect passive periphrastic signature to every copula
  that has a passive perfect participial child.  The source inspects only the first
  participial child: in \<open>two_participles_example\<close> the copula at position 1 has the passive
  perfect participle at position 2 as a child, but the first participial child is the
  active participle at position 0, and the signature stays the copula's own.
\<close>

theorem periphrastic_first_child_counterexample:
  "lower (or_empty (t_lemma (two_participles_example ! 1))) = ''sum'' \<and>
   2 \<in> set (children_get (build_children two_participles_example) 1) \<and>
   feats_get (t_feats (two_participles_example ! 2)) ''VerbForm'' = Some ''Part'' \<and>
   feats_get (t_feats (two_participles_example ! 2)) ''Voice'' = Some ''Pass'' \<and>
   feats_get (t_feats (two_participles_example ! 2)) ''Aspect'' = Some ''Perf'' \<and>
   predicate_signature two_participles_example (build_children two_participles_example) (Some 1) =
     \<lparr>mood = Some ''Ind'', tense = Some ''Pres'', aspect = None, verbForm = Some ''Fin'',
      compound = None\<rparr>"
  by code_simp

text \<open>
  Claim C5, amended: for a predicate whose lemma is the copula (sum/esse) and whose part
  of speech is AUX or VERB, when its first child (in token order) with
  \<^verbatim>\<open>VerbForm=Part\<close> has passive voice and perfect aspect, the normalized signature takes
  its tense from the copula's own tense (Pres becomes Past, Past becomes Pqp, any other
  tense unchanged), has aspect Perf and records the compound
  \<^verbatim>\<open>perfect_passive_periphrastic\<close> with the two positions; mood and verbForm are the
  copula's own.
\<close>

theorem perfect_passive_periphrastic:
  assumes "vi < length tokens"
    and "lower (or_empty (t_lemma (tokens ! vi))) \<in> {''sum'', ''esse''}"
    and "t_upos (tokens ! vi) \<in> {Some ''AUX'', Some ''VERB''}"
    and "first_participle_child tokens ch vi = Some part_i"
    and "feats_get (t_feats (tokens ! part_i)) ''Voice'' = Some ''Pass''"
    and "feats_get (t_feats (tokens ! part_i)) ''Aspect'' = Some ''Perf''"
  shows "predicate_signature tokens ch (Some vi) =
           \<lparr>mood = get_mood (tokens ! vi),
            tense = (if get_tense (tokens ! vi) = Some ''Pres'' then Some ''Past''
                     else if get_tense (tokens ! vi) = Some ''Past'' then Some ''Pqp''
                     else get_tense (tokens ! vi)),
            aspect = Some ''Perf'',
            verbForm = get_verbform (tokens ! vi),
            compound = Some \<lparr>kind = ''perfect_passive_periphrastic'',
                              aux_index = vi, part_index = part_i\<rparr>\<rparr>"
proof -
  have "feats_get (feats_or_empty (t_feats (tokens ! part_i))) k =
        feats_get (t_feats (tokens ! part_i)) k" for k
    by (cases "t_feats (tokens ! part_i)") simp_all
  with assms show ?thesis
    by (simp add: predicate_signature_def Let_def)
qed

theorem perfect_passive_periphrastic_witness:
  "predicate_signature periphrastic_example (build_children periphrastic_example) (Some 1) =
     \<lparr>mood = Some ''Ind'', tense = Some ''Pqp'', aspect = Some ''Perf'', verbForm = Some ''Fin'',
      compound = Some \<lparr>kind = ''perfect_passive_periphrastic'', aux_index = 1, part_index = 0\<rparr>\<rparr>"
proof -
  have h1: "1 < length periphrastic_example" by code_simp
  have h2: "lower (or_empty (t_lemma (periphrastic_example ! 1))) \<in> {''sum'', ''esse''}"
    by code_simp
  have h3: "t_upos (periphrastic_example ! 1) \<in> {Some ''AUX'', Some ''VERB''}" by code_simp
  have h4: "first_participle_child periphrastic_example (build_children periphrastic_example) 1
              = Some 0"
    by code_simp
  have h5: "feats_get (t_feats (periphrastic_example ! 0)) ''Voice'' = Some ''Pass''" by code_simp
  have h6: "feats_get (t_feats (periphrastic_example ! 0)) ''Aspect'' = Some ''Perf''" by code_simp
  have t: "get_tense (periphrastic_example ! 1) = Some ''Past''" by code_simp
  have m: "get_mood (periphrastic_example ! 1) = Some ''Ind''" by code_simp
  have v: "get_verbform (periphrastic_example ! 1) = Some ''Fin''" by code_simp
  show ?thesis
    unfolding perfect_passive_periphrastic [OF h1 h2 h3 h4 h5 h6] t m v by simp
qed

subsection \<open>Direct discourse, both clauses subjunctive\<close>

lemma finite_not_infinitive: "is_finite_verb tok \<Longrightarrow> \<not> is_infinitive tok"
  by (auto simp: is_finite_verb_def is_infinitive_def feats_has_def Let_def split: if_splits)

text \<open>
  Claim C6: under direct discourse, with an apodosis that is not an infinitive (so in
  particular a finite one) and both signatures subjunctive, the label is
  \<^verbatim>\<open>future_less_vivid\<close> when both tenses are Pres; otherwise \<^verbatim>\<open>present_contrafactual\<close>
  when both are imperfect subjunctive (Past with aspect Imp); otherwise
  \<^verbatim>\<open>past_contrafactual\<close> when both are pluperfect-like (tense Pqp or aspect Perf);
  otherwise \<^verbatim>\<open>mixed_subjunctive\<close>.  On \<^verbatim>\<open>si id fecisset , eum punivisset\<close>, both verbs
  pluperfect subjunctive, the detector infers direct discourse and emits a protasis and
  an apodosis tag, both labelled \<^verbatim>\<open>past_contrafactual\<close>.
\<close>

theorem direct_subjunctive_labels:
  "(pv_i < length tokens \<and> ap_i < length tokens \<and> \<not> is_infinitive (tokens ! ap_i) \<and>
    discourse d = ''direct'' \<and>
    mood (predicate_signature tokens ch (Some pv_i)) = Some ''Sub'' \<and>
    mood (predicate_signature tokens ch (Some ap_i)) = Some ''Sub'' \<longrightarrow>
    classify_conditional tokens ch (Some pv_i) (Some ap_i) (Some d) =
      (let ps = predicate_signature tokens ch (Some pv_i);
           as = predicate_signature tokens ch (Some ap_i)
       in if tense ps = Some ''Pres'' \<and> tense as = Some ''Pres'' then ''future_less_vivid''
          else if (tense ps = Some ''Past'' \<and> aspect ps = Some ''Imp'') \<and>
                  (tense as = Some ''Past'' \<and> aspect as = Some ''Imp'')
               then ''present_contrafactual''
          else if (tense ps = Some ''Pqp'' \<or> aspect ps = Some ''Perf'') \<and>
                  (tense as = Some ''Pqp'' \<or> aspect as = Some ''Perf'')
               then ''past_contrafactual''
          else ''mixed_subjunctive'')) \<and>
   map tag_summary (tag_conditionals contrafactual_example) =
     [(''conditional_protasis'', Some ''past_contrafactual'', 0, 3),
      (''conditional_apodosis'', Some ''past_contrafactual'', 4, 5)] \<and>
   map (map_option (snd \<circ> snd) \<circ> tag_inputs) (tag_conditionals contrafactual_example) =
     [Some ''direct'', Some ''direct'']"
proof -
  have worked: "map tag_summary (tag_conditionals contrafactual_example) =
     [(''conditional_protasis'', Some ''past_contrafactual'', 0, 3),
      (''conditional_apodosis'', Some ''past_contrafactual'', 4, 5)]"
    by code_simp
  have direct: "map (map_option (snd \<circ> snd) \<circ> tag_inputs) (tag_conditionals contrafactual_example) =
     [Some ''direct'', Some ''direct'']"
    by code_simp
  show ?thesis
    by (intro conjI impI worked direct)
       (simp add: classify_conditional_def valid_index_def finite_label_def Let_def)
qed

theorem direct_subjunctive_labels_witness:
  "is_finite_verb (contrafactual_example ! 5) \<and>
   classify_conditional contrafactual_example (build_children contrafactual_example)
     (Some 2) (Some 5) (Some (mk contrafactual_example ''direct'' None None ''default_direct''))
   = ''past_contrafactual''"
proof -
  let ?ch = "build_children contrafactual_example"
  let ?d = "mk contrafactual_example ''direct'' None None ''default_direct''"
  have fin: "is_finite_verb (contrafactual_example ! 5)" by code_simp
  have h: "2 < length contrafactual_example" "5 < length contrafactual_example"
    "discourse ?d = ''direct''"
    "mood (predicate_signature contrafactual_example ?ch (Some 2)) = Some ''Sub''"
    "mood (predicate_signature contrafactual_example ?ch (Some 5)) = Some ''Sub''"
    by code_simp+
  have s: "predicate_signature contrafactual_example ?ch (Some 2) =
             \<lparr>mood = Some ''Sub'', tense = Some ''Past'', aspect = Some ''Perf'',
              verbForm = Some ''Fin'', compound = None\<rparr>"
          "predicate_signature contrafactual_example ?ch (Some 5) =
             \<lparr>mood = Some ''Sub'', tense = Some ''Past'', aspect = Some ''Perf'',
              verbForm = Some ''Fin'', compound = None\<rparr>"
    by code_simp+
  from direct_subjunctive_labels [of 2 contrafactual_example 5 ?d ?ch]
       h finite_not_infinitive [OF fin]
  have "classify_conditional contrafactual_example ?ch (Some 2) (Some 5) (Some ?d) =
      (let ps = predicate_signature contrafactual_example ?ch (Some 2);
           as = predicate_signature contrafactual_example ?ch (Some 5)
       in if tense ps = Some ''Pres'' \<and> tense as = Some ''Pres'' then ''future_less_vivid''
          else if (tense ps = Some ''Past'' \<and> aspect ps = Some ''Imp'') \<and>
                  (tense as = Some ''Past'' \<and> aspect as = Some ''Imp'')
               then ''present_contrafactual''
          else if (tense ps = Some ''Pqp'' \<or> aspect ps = Some ''Perf'') \<and>
                  (tense as = Some ''Pqp'' \<or> aspect as = Some ''Perf'')
               then ''past_contrafactual''
          else ''mixed_subjunctive'')"
    by blast
  with fin show ?thesis by (simp add: s)
qed

subsection \<open>Cum clauses\<close>

text \<open>
  Claim C7: in a token sequence where \<^verbatim>\<open>cum\<close> at position 0 is a SCONJ marker
  (relation \<^verbatim>\<open>mark\<close> or \<^verbatim>\<open>case\<close>) with head 6, the token at position 5 is a finite
  subjunctive verb, no strong boundary lies between them and no other token has the
  lemma \<^verbatim>\<open>cum\<close>, the cum-clause detector emits exactly one tag, a \<^verbatim>\<open>cum_clause\<close> whose
  trigger has \<^verbatim>\<open>cum_index = 0\<close> and \<^verbatim>\<open>verb_index = 5\<close>.
\<close>

theorem cum_clause_worked:
  assumes len: "5 < length tokens"
    and lem: "lower (tok_lemma (tokens ! 0)) = ''cum''"
    and up: "t_upos (tokens ! 0) = Some ''SCONJ''"
    and dep: "t_deprel (tokens ! 0) \<in> {Some ''mark'', Some ''case''}"
    and hd: "t_head (tokens ! 0) = Some 6"
    and verb: "t_upos (tokens ! 5) \<in> {Some ''VERB'', Some ''AUX''}"
    and sub: "feats_get (t_feats (tokens ! 5)) ''Mood'' = Some ''Sub''"
    and fin: "feats_get (t_feats (tokens ! 5)) ''VerbForm'' = Some ''Fin''"
    and nb: "\<not> has_strong_boundary_between tokens 0 5"
    and others: "list_all (\<lambda>i. lower (tok_lemma (tokens ! i)) \<noteq> ''cum'') [1 ..< length tokens]"
  shows "\<exists>e. tag_cum_clauses tokens =
           [\<lparr>tag_type = ''cum_clause'', subtype = None, tag_start = 0, tag_end = e,
             highlight_spans = None, full_span = None, confidence = 90, conditional = None,
             trigger = [(''cum_index'', TInt 0), (''verb_index'', TInt 5)]\<rparr>]"
proof -
  have "0 < length tokens" using len by (cases tokens) simp_all
  then have upt: "[0 ..< length tokens] = 0 # [Suc 0 ..< length tokens]"
    by (rule upt_conv_Cons)
  have rest: "concat (map (cum_clause_at tokens) [Suc 0 ..< length tokens]) = []"
    by (rule concat_map_all_Nil) (use others in \<open>auto simp: cum_clause_at_def list_all_iff\<close>)
  have finv: "is_finite_verb (tokens ! 5)"
    using verb fin by (simp add: is_finite_verb_def is_verb_upos_def)
  have first: "\<exists>e. cum_clause_at tokens 0 =
           [\<lparr>tag_type = ''cum_clause'', subtype = None, tag_start = 0, tag_end = e,
             highlight_spans = None, full_span = None, confidence = 90, conditional = None,
             trigger = [(''cum_index'', TInt 0), (''verb_index'', TInt 5)]\<rparr>]"
    using len lem up dep hd sub finv nb
    by (simp add: cum_clause_at_def Let_def feats_has_def)
  then show ?thesis
    by (simp add: tag_cum_clauses_def upt rest)
qed

theorem cum_clause_worked_witness:
  "tag_cum_clauses cum_example =
     [\<lparr>tag_type = ''cum_clause'', subtype = None, tag_start = 0, tag_end = 5,
       highlight_spans = None, full_span = None, confidence = 90, conditional = None,
       trigger = [(''cum_index'', TInt 0), (''verb_index'', TInt 5)]\<rparr>]"
proof -
  have h: "5 < length cum_example"
      "lower (tok_lemma (cum_example ! 0)) = ''cum''"
      "t_upos (cum_example ! 0) = Some ''SCONJ''"
      "t_deprel (cum_example ! 0) \<in> {Some ''mark'', Some ''case''}"
      "t_head (cum_example ! 0) = Some 6"
      "t_upos (cum_example ! 5) \<in> {Some ''VERB'', Some ''AUX''}"
      "feats_get (t_feats (cum_example ! 5)) ''Mood'' = Some ''Sub''"
      "feats_get (t_feats (cum_example ! 5)) ''VerbForm'' = Some ''Fin''"
      "\<not> has_strong_boundary_between cum_example 0 5"
      "list_all (\<lambda>i. lower (tok_lemma (cum_example ! i)) \<noteq> ''cum'') [1 ..< length cum_example]"
    by code_simp+
  from cum_clause_worked [OF h] obtain e where
    e: "tag_cum_clauses cum_example =
          [\<lparr>tag_type = ''cum_clause'', subtype = None, tag_start = 0, tag_end = e,
            highlight_spans = None, full_span = None, confidence = 90, conditional = None,
            trigger = [(''cum_index'', TInt 0), (''verb_index'', TInt 5)]\<rparr>]"
    by blast
  have "tag_end (hd (tag_cum_clauses cum_example)) = 5" by code_simp
  with e have "e = 5" by simp
  with e show ?thesis by simp
qed

subsection \<open>Feature accessor\<close>

lemma feats_get_parts_absent:
  "\<forall>part \<in> set parts. CHR ''='' \<in> set part \<longrightarrow> takeWhile (\<lambda>c. c \<noteq> CHR ''='') part \<noteq> key
   \<Longrightarrow> feats_get_parts parts key = None"
  by (induction parts) (auto simp: Let_def)

text \<open>Splitting the string of a list of parts gives the parts back; reading them gives the first pair.\<close>

lemma split_on_no_sep: "c \<notin> set p \<Longrightarrow> split_on c p = [p]"
  by (induction p) auto

lemma split_on_append_sep:
  "c \<notin> set p \<Longrightarrow> split_on c (p @ c # rest) = p # split_on c rest"
  by (induction p) auto

lemma split_on_join_bar:
  "ps \<noteq> [] \<Longrightarrow> \<forall>p \<in> set ps. CHR ''|'' \<notin> set p \<Longrightarrow> split_on CHR ''|'' (join_bar ps) = ps"
proof (induction ps rule: join_bar.induct)
  case 1
  then show ?case by simp
next
  case (2 p)
  then show ?case by (simp add: split_on_no_sep)
next
  case (3 p q ps)
  then show ?case by (simp add: split_on_append_sep)
qed

lemma feats_get_parts_rendered:
  "\<forall>(k, v) \<in> set kvs. CHR ''='' \<notin> set k \<Longrightarrow>
   feats_get_parts (map (\<lambda>(k, v). k @ CHR ''='' # v) kvs) key = map_of kvs key"
proof (induction kvs)
  case Nil
  then show ?case by simp
next
  case (Cons kv kvs)
  obtain k v where kv: "kv = (k, v)" by (cases kv)
  with Cons.prems have k: "CHR ''='' \<notin> set k" by simp
  then have tw: "takeWhile (\<lambda>c. c \<noteq> CHR ''='') (k @ CHR ''='' # v) = k"
    by (induction k) auto
  from k have dw: "dropWhile (\<lambda>c. c \<noteq> CHR ''='') (k @ CHR ''='' # v) = CHR ''='' # v"
    by (induction k) auto
  from Cons kv show ?case by (simp add: tw dw Let_def)
qed

lemma feats_get_parts_find:
  "feats_get_parts parts key =
     (case find (\<lambda>part. CHR ''='' \<in> set part \<and> takeWhile (\<lambda>c. c \<noteq> CHR ''='') part = key) parts of
        None \<Rightarrow> None
      | Some part \<Rightarrow> Some (tl (dropWhile (\<lambda>c. c \<noteq> CHR ''='') part)))"
  by (induction parts) (auto simp: Let_def)

lemma feats_get_rendered:
  assumes "plain_pairs kvs"
  shows "feats_get (FStr (render_feats kvs)) key = map_of kvs key"
proof (cases "kvs = []")
  case True
  then show ?thesis by (simp add: render_feats_def)
next
  case False
  let ?ps = "map (\<lambda>(k, v). k @ CHR ''='' # v) kvs"
  have ne: "?ps \<noteq> []" using False by simp
  have nobar: "\<forall>p \<in> set ?ps. CHR ''|'' \<notin> set p"
    using assms by (auto simp: plain_pairs_def list_all_iff)
  have noeq: "\<forall>(k, v) \<in> set kvs. CHR ''='' \<notin> set k"
    using assms by (auto simp: plain_pairs_def list_all_iff)
  have nonempty: "render_feats kvs \<noteq> []"
  proof -
    from False obtain kv rest where "kvs = kv # rest" by (cases kvs) auto
    then show ?thesis by (cases kv; cases rest) (auto simp: render_feats_def)
  qed
  show ?thesis
    using nonempty
    by (simp add: render_feats_def [symmetric])
       (simp add: render_feats_def split_on_join_bar [OF ne nobar] feats_get_parts_rendered [OF noeq])
qed

text \<open>
  Claim C8, as stated, says that \<open>feats_get\<close> yields \<open>None\<close> for every bag that is not a
  dictionary.  A feature string is not a dictionary, and \<open>feats_get\<close> parses it: on
  \<^verbatim>\<open>"Mood=Sub"\<close> the key \<^verbatim>\<open>Mood\<close> has the value \<^verbatim>\<open>Sub\<close>.
\<close>

theorem feats_get_string_counterexample:
  "\<not> is_dict_bag (FStr ''Mood=Sub'') \<and> feats_get (FStr ''Mood=Sub'') ''Mood'' = Some ''Sub''"
  by (simp add: is_dict_bag_def)

text \<open>
  Claim C8, amended: \<open>feats_get\<close> is a total function with no error result.  It yields
  \<open>None\<close> when the bag is absent or empty, when the bag is neither a dictionary nor a
  string, when the key is not in the dictionary, and when no part of a feature string
  defines the key; in particular a token whose \<^verbatim>\<open>feats\<close> is \<^verbatim>\<open>None\<close> yields \<open>None\<close> for
  every key.  A dictionary yields the value stored under the key.  A feature string is
  split at \<^verbatim>\<open>|\<close> and yields the text after the first \<^verbatim>\<open>=\<close> of the first part that has
  an \<^verbatim>\<open>=\<close> and whose text before it is the key; so the string \<^verbatim>\<open>K1=V1|...|Kn=Vn\<close>
  yields the value of the first pair whose key matches.  \<open>feats_has\<close> is the equality
  test on \<open>feats_get\<close>.
\<close>

theorem feats_get_soft:
  "feats_get FNone key = None \<and>
   feats_get (FStr []) key = None \<and>
   feats_get FOther key = None \<and>
   (key \<notin> dom m \<longrightarrow> feats_get (FDict m) key = None) \<and>
   feats_get (FDict m) key = m key \<and>
   (key \<notin> set (string_bag_keys s) \<longrightarrow> feats_get (FStr s) key = None) \<and>
   feats_get (FStr s) key =
     (case find (\<lambda>part. CHR ''='' \<in> set part \<and> takeWhile (\<lambda>c. c \<noteq> CHR ''='') part = key)
                (split_on CHR ''|'' s) of
        None \<Rightarrow> None
      | Some part \<Rightarrow> Some (tl (dropWhile (\<lambda>c. c \<noteq> CHR ''='') part))) \<and>
   (plain_pairs kvs \<longrightarrow> feats_get (FStr (render_feats kvs)) key = map_of kvs key) \<and>
   (feats_has f key v \<longleftrightarrow> feats_get f key = Some v)"
proof -
  have absent: "feats_get (FStr s) key = None" if "key \<notin> set (string_bag_keys s)"
  proof -
    from that have "\<forall>part \<in> set (split_on CHR ''|'' s).
        CHR ''='' \<in> set part \<longrightarrow> takeWhile (\<lambda>c. c \<noteq> CHR ''='') part \<noteq> key"
      by (auto simp: string_bag_keys_def)
    then show ?thesis by (simp add: feats_get_parts_absent)
  qed
  have parsed: "feats_get (FStr s) key =
     (case find (\<lambda>part. CHR ''='' \<in> set part \<and> takeWhile (\<lambda>c. c \<noteq> CHR ''='') part = key)
                (split_on CHR ''|'' s) of
        None \<Rightarrow> None
      | Some part \<Rightarrow> Some (tl (dropWhile (\<lambda>c. c \<noteq> CHR ''='') part)))"
  proof (cases "s = []")
    case True
    then show ?thesis by simp
  next
    case False
    then show ?thesis by (simp add: feats_get_parts_find [symmetric])
  qed
  have dict: "feats_get (FDict m) key = m key" by simp
  have none: "feats_get FNone key = None" "feats_get (FStr []) key = None"
    "feats_get FOther key = None"
    by simp_all
  have dictnone: "key \<notin> dom m \<longrightarrow> feats_get (FDict m) key = None" by auto
  have has: "feats_has f key v \<longleftrightarrow> feats_get f key = Some v" by (simp add: feats_has_def)
  from none dictnone dict absent parsed feats_get_rendered [of kvs key] has
  show ?thesis by blast
qed

theorem feats_get_soft_witness:
  "''Mood'' \<notin> dom [''Case'' \<mapsto> ''Abl''] \<and> feats_get (FDict [''Case'' \<mapsto> ''Abl'']) ''Mood'' = None \<and>
   ''Mood'' \<notin> set (string_bag_keys ''Case=Abl|Number=Sing'') \<and>
   feats_get (FStr ''Case=Abl|Number=Sing'') ''Mood'' = None \<and>
   plain_pairs [(''Mood'', ''Sub''), (''Tense'', ''Past''), (''Mood'', ''Ind'')] \<and>
   feats_get (FStr ''Mood=Sub|Tense=Past|Mood=Ind'') ''Mood'' = Some ''Sub''"
proof -
  let ?kvs = "[(''Mood'', ''Sub''), (''Tense'', ''Past''), (''Mood'', ''Ind'')]"
  have pp: "plain_pairs ?kvs" by code_simp
  have rf: "render_feats ?kvs = ''Mood=Sub|Tense=Past|Mood=Ind''" by code_simp
  have nk: "''Mood'' \<notin> dom [''Case'' \<mapsto> ''Abl'']" by simp
  have ns: "''Mood'' \<notin> set (string_bag_keys ''Case=Abl|Number=Sing'')"
    by (simp add: string_bag_keys_def)
  from feats_get_soft [where key = "''Mood''" and m = "[''Case'' \<mapsto> ''Abl'']"
                         and s = "''Case=Abl|Number=Sing''" and kvs = ?kvs] pp nk ns
  have "feats_get (FDict [''Case'' \<mapsto> ''Abl'']) ''Mood'' = None"
    "feats_get (FStr ''Case=Abl|Number=Sing'') ''Mood'' = None"
    "feats_get (FStr (render_feats ?kvs)) ''Mood'' = map_of ?kvs ''Mood''"
    by blast+
  with pp nk ns rf show ?thesis by simp
qed

subsection \<open>Subtree containment terminates\<close>

text \<open>
  Each iteration either shrinks the stack with the visited set unchanged, or visits a new
  position: the number of unvisited positions and the stack length decrease
  lexicographically.
\<close>

lemma in_subtree_loop_returns:
  "\<exists>b. in_subtree_loop ch q stack seen = Some b"
proof -
  have "\<forall>stack seen. (card ({..<length ch} - seen), length stack) = m \<longrightarrow>
          (\<exists>b. in_subtree_loop ch q stack seen = Some b)" for m :: "nat \<times> nat"
  proof (induction m rule: wf_induct_rule [OF wf_lex_prod [OF wf_less_than wf_less_than]])
    case (1 m)
    show ?case
    proof (intro allI impI)
      fix stack :: "nat list" and seen :: "nat set"
      assume m0: "(card ({..<length ch} - seen), length stack) = m"
      then have m: "m = (card ({..<length ch} - seen), length stack)" by simp
      show "\<exists>b. in_subtree_loop ch q stack seen = Some b"
      proof (cases stack)
        case Nil
        then show ?thesis by (subst in_subtree_loop.simps) auto
      next
        case (Cons cur rest)
        show ?thesis
        proof (cases "cur = q")
          case True
          with Cons show ?thesis by (subst in_subtree_loop.simps) auto
        next
          case nq: False
          show ?thesis
          proof (cases "cur \<in> seen")
            case True
            have "((card ({..<length ch} - seen), length rest), m) \<in> less_than <*lex*> less_than"
              unfolding m using Cons by simp
            from 1 [OF this] obtain b where "in_subtree_loop ch q rest seen = Some b" by blast
            with Cons nq True show ?thesis by (subst in_subtree_loop.simps) simp
          next
            case ns: False
            let ?st = "rev (children_get ch cur) @ rest"
            have "((card ({..<length ch} - insert cur seen), length ?st), m)
                    \<in> less_than <*lex*> less_than"
            proof (cases "cur < length ch")
              case True
              then have mem: "cur \<in> {..<length ch} - seen" using ns by simp
              have fin: "finite ({..<length ch} - seen)" by simp
              have eq: "{..<length ch} - insert cur seen = ({..<length ch} - seen) - {cur}"
                by auto
              have "card ({..<length ch} - insert cur seen) < card ({..<length ch} - seen)"
                unfolding eq by (rule card_Diff1_less [OF fin mem])
              then show ?thesis unfolding m by simp
            next
              case False
              then have "{..<length ch} - insert cur seen = {..<length ch} - seen" by auto
              moreover from False have "children_get ch cur = []" by (simp add: children_get_def)
              ultimately show ?thesis unfolding m using Cons by simp
            qed
            from 1 [OF this] obtain b where "in_subtree_loop ch q ?st (insert cur seen) = Some b"
              by blast
            with Cons nq ns show ?thesis by (subst in_subtree_loop.simps) simp
          qed
        qed
      qed
    qed
  qed
  then show ?thesis by blast
qed

text \<open>
  Claim C9: \<open>in_subtree\<close> terminates for every input, including head graphs with cycles
  or self-loops: for the children built by \<open>build_children\<close> from arbitrary head
  values and any root and query positions, the traversal returns a result.
\<close>

theorem in_subtree_terminates:
  "\<exists>b. in_subtree tokens (build_children tokens) root_i query_i = Some b"
  unfolding in_subtree_def by (rule in_subtree_loop_returns)

subsection \<open>Verbs without a VerbForm feature\<close>

text \<open>
  Claim C10: a VERB or AUX token counts as a finite verb when its \<^verbatim>\<open>VerbForm\<close> is
  missing as well as when it is \<^verbatim>\<open>Fin\<close>; so the detectors that ask for a finite verb
  fire on verbs with no \<^verbatim>\<open>VerbForm\<close> annotation.  In the three sentences below no
  token has a \<^verbatim>\<open>VerbForm\<close>: the cum-clause detector tags \<^verbatim>\<open>cum venisset\<close>, the
  relative-clause detector tags \<^verbatim>\<open>qui venit\<close>, and in \<^verbatim>\<open>dicit , si venit , manet\<close> the
  conditional detector takes \<^verbatim>\<open>manet\<close> (position 5) as apodosis and finds \<^verbatim>\<open>dicit\<close>
  (position 0) as the governing verb of indirect discourse.
\<close>

theorem finite_verb_without_verbform:
  "(is_finite_verb tok \<longleftrightarrow>
      (t_upos tok = Some ''VERB'' \<or> t_upos tok = Some ''AUX'') \<and>
      (feats_get (t_feats tok) ''VerbForm'' = None \<or>
       feats_get (t_feats tok) ''VerbForm'' = Some ''Fin'')) \<and>
   list_all (\<lambda>t. feats_get (t_feats t) ''VerbForm'' = None)
     (bare_cum_example @ bare_relative_example @ bare_conditional_example) \<and>
   map tag_summary (tag_cum_clauses bare_cum_example) = [(''cum_clause'', None, 0, 1)] \<and>
   map tag_summary (tag_relative_clauses bare_relative_example) =
     [(''relative_clause'', Some ''indicative'', 1, 2)] \<and>
   map tag_summary (tag_conditionals bare_conditional_example) =
     [(''conditional_protasis'', Some ''present_simple'', 2, 4),
      (''conditional_apodosis'', Some ''present_simple'', 5, 5)] \<and>
   map tag_choice (tag_conditionals bare_conditional_example) =
     [Some (Some 5, Some 0, ''indirect''), Some (Some 5, Some 0, ''indirect'')]"
proof -
  have a: "is_finite_verb tok \<longleftrightarrow>
      (t_upos tok = Some ''VERB'' \<or> t_upos tok = Some ''AUX'') \<and>
      (feats_get (t_feats tok) ''VerbForm'' = None \<or>
       feats_get (t_feats tok) ''VerbForm'' = Some ''Fin'')"
    by (auto simp: is_finite_verb_def is_verb_upos_def Let_def)
  have b: "list_all (\<lambda>t. feats_get (t_feats t) ''VerbForm'' = None)
     (bare_cum_example @ bare_relative_example @ bare_conditional_example)"
    by code_simp
  have c: "map tag_summary (tag_cum_clauses bare_cum_example) = [(''cum_clause'', None, 0, 1)]"
    by code_simp
  have d: "map tag_summary (tag_relative_clauses bare_relative_example) =
     [(''relative_clause'', Some ''indicative'', 1, 2)]"
    by code_simp
  have e: "map tag_summary (tag_conditionals bare_conditional_example) =
     [(''conditional_protasis'', Some ''present_simple'', 2, 4),
      (''conditional_apodosis'', Some ''present_simple'', 5, 5)]"
    by code_simp
  have f: "map tag_choice (tag_conditionals bare_conditional_example) =
     [Some (Some 5, Some 0, ''indirect''), Some (Some 5, Some 0, ''indirect'')]"
    by code_simp
  from a b c d e f show ?thesis by blast
qed

end
